theory Spec2Isabelle
  imports Main "HOL-Library.AList"
begin

text \<open>
  A model of the calculator of \<open>script.js\<close>: the state of the page, one function for each
  function of the script, and the events that call them. The parts of JavaScript the script
  relies on come first: numbers, strings, JSON and the conversion to string. The properties
  of the calculator are at the end.
\<close>

section \<open>JavaScript numbers\<close>

text \<open>
  The calculator computes with JavaScript numbers, that is with IEEE 754 binary64 values.
  A finite value is kept as sign, mantissa and exponent, \<open>Finite s m e\<close> standing for
  \<open>(-1)\<^sup>s * m * 2\<^sup>e\<close> with \<open>0 \<le> m < 2\<^sup>5\<^sup>3\<close> and \<open>-1074 \<le> e \<le> 971\<close>; the mantissa of a normal
  number is at least \<open>2\<^sup>5\<^sup>2\<close>, subnormal numbers and the two zeros have exponent \<open>-1074\<close>.
  The sign \<open>True\<close> is the negative one. All arithmetic is exact integer arithmetic on
  fractions \<open>a / b\<close>, followed by one rounding to the nearest representable value, ties to the
  even mantissa, overflow to infinity.
\<close>

datatype double = NaN | Infty bool | Finite bool int int

text \<open>
  \<open>scale base a b k\<close> is the fraction \<open>a / b\<close> multiplied by \<open>base\<^sup>k\<close>, and
  \<open>floor_log base a b\<close> the integer \<open>l\<close> with \<open>base\<^sup>l \<le> a / b < base\<^sup>l\<^sup>+\<^sup>1\<close>, for positive
  \<open>a\<close> and \<open>b\<close>; \<open>ilog base x\<close> counts the digits of \<open>x\<close>.
\<close>

definition scale :: "int \<Rightarrow> int \<Rightarrow> int \<Rightarrow> int \<Rightarrow> int \<times> int" where
  "scale base a b k = (if 0 \<le> k then (a * base ^ nat k, b) else (a, b * base ^ nat (- k)))"

function ilog :: "int \<Rightarrow> int \<Rightarrow> int" where
  "ilog b x = (if 1 < b \<and> 0 < x then 1 + ilog b (x div b) else 0)"
  by pat_completeness auto
termination
  by (relation "measure (\<lambda>(b, x). nat x)") (auto intro!: int_div_less_self)

declare ilog.simps [simp del]

definition floor_log :: "int \<Rightarrow> int \<Rightarrow> int \<Rightarrow> int" where
  "floor_log base a b =
     (let l = ilog base a - ilog base b;
          (n, d) = scale base a b (- l)
      in if d \<le> n then l else l - 1)"

text \<open>
  Rounding of the positive fraction \<open>a / b\<close>: the exponent is chosen so that the quotient
  has 53 bits (or is subnormal), the quotient is rounded half to even, and a mantissa that
  rounds up to \<open>2\<^sup>5\<^sup>3\<close> moves to the next exponent. \<open>None\<close> is overflow.
\<close>

definition round_ratio :: "int \<Rightarrow> int \<Rightarrow> (int \<times> int) option" where
  "round_ratio a b =
     (let e = max (floor_log 2 a b - 52) (- 1074);
          (n, d) = scale 2 a b (- e);
          q = n div d;
          r = n mod d;
          m = (if d < 2 * r \<or> (2 * r = d \<and> odd q) then q + 1 else q);
          (m', e') = (if m = 2 ^ 53 then (2 ^ 52, e + 1) else (m, e))
      in if 971 < e' then None else Some (m', e'))"

definition to_double :: "bool \<Rightarrow> int \<Rightarrow> int \<Rightarrow> double" where
  "to_double sg a b =
     (if a = 0 then Finite sg 0 (- 1074)
      else case round_ratio a b of None \<Rightarrow> Infty sg | Some (m, e) \<Rightarrow> Finite sg m e)"

text \<open>
  The number literals of the script (\<open>0\<close>, \<open>-1\<close>, \<open>100\<close>) and the four operators
  \<open>+\<close>, \<open>-\<close>, \<open>*\<close>, \<open>/\<close> on numbers, with the special values of IEEE 754.
\<close>

definition num :: "int \<Rightarrow> double" where
  "num i = to_double (i < 0) \<bar>i\<bar> 1"

fun dneg :: "double \<Rightarrow> double" where
  "dneg NaN = NaN"
| "dneg (Infty s) = Infty (\<not> s)"
| "dneg (Finite s m e) = Finite (\<not> s) m e"

fun dadd :: "double \<Rightarrow> double \<Rightarrow> double" where
  "dadd NaN y = NaN"
| "dadd x NaN = NaN"
| "dadd (Infty s) (Infty t) = (if s = t then Infty s else NaN)"
| "dadd (Infty s) (Finite t n f) = Infty s"
| "dadd (Finite s m e) (Infty t) = Infty t"
| "dadd (Finite s m e) (Finite t n f) =
     (let g = min e f;
          x = (if s then - m else m) * 2 ^ nat (e - g) + (if t then - n else n) * 2 ^ nat (f - g)
      in if x = 0 then Finite (s \<and> t) 0 (- 1074)
         else (let (a, b) = scale 2 \<bar>x\<bar> 1 g in to_double (x < 0) a b))"

definition dsub :: "double \<Rightarrow> double \<Rightarrow> double" where
  "dsub x y = dadd x (dneg y)"

fun dmul :: "double \<Rightarrow> double \<Rightarrow> double" where
  "dmul NaN y = NaN"
| "dmul x NaN = NaN"
| "dmul (Infty s) (Infty t) = Infty (s \<noteq> t)"
| "dmul (Infty s) (Finite t n f) = (if n = 0 then NaN else Infty (s \<noteq> t))"
| "dmul (Finite s m e) (Infty t) = (if m = 0 then NaN else Infty (s \<noteq> t))"
| "dmul (Finite s m e) (Finite t n f) =
     (let (a, b) = scale 2 (m * n) 1 (e + f) in to_double (s \<noteq> t) a b)"

fun ddiv :: "double \<Rightarrow> double \<Rightarrow> double" where
  "ddiv NaN y = NaN"
| "ddiv x NaN = NaN"
| "ddiv (Infty s) (Infty t) = NaN"
| "ddiv (Infty s) (Finite t n f) = Infty (s \<noteq> t)"
| "ddiv (Finite s m e) (Infty t) = Finite (s \<noteq> t) 0 (- 1074)"
| "ddiv (Finite s m e) (Finite t n f) =
     (if n = 0 then (if m = 0 then NaN else Infty (s \<noteq> t))
      else (let (a, b) = scale 2 m n (e - f) in to_double (s \<noteq> t) a b))"

text \<open>
  \<open>===\<close> on numbers: \<open>NaN\<close> equals nothing, the two zeros are equal.
\<close>

fun strict_eq :: "double \<Rightarrow> double \<Rightarrow> bool" where
  "strict_eq NaN y = False"
| "strict_eq x NaN = False"
| "strict_eq (Finite s m e) (Finite t n f) = ((m = 0 \<and> n = 0) \<or> (s = t \<and> m = n \<and> e = f))"
| "strict_eq x y = (x = y)"

subsection \<open>Number to string\<close>

text \<open>
  \<open>String(x)\<close> for a number \<open>x\<close>: the digits are the shortest decimal \<open>s\<close>, of \<open>k\<close> digits,
  with \<open>s * 10\<^sup>n\<^sup>-\<^sup>k\<close> rounding to \<open>x\<close>, and among those the one closest to \<open>x\<close>. For each
  \<open>k\<close> the two candidates next to \<open>x\<close> are tried (\<open>digits_at\<close>); 17 digits always suffice for
  a binary64 value. The digits are then laid out as ECMAScript prescribes: plain digits up to
  \<open>10\<^sup>2\<^sup>1\<close>, a leading \<open>0.\<close> down to \<open>10\<^sup>-\<^sup>6\<close>, exponent notation otherwise.
\<close>

definition digit_char :: "int \<Rightarrow> char" where
  "digit_char d =
     (if d = 0 then CHR ''0'' else if d = 1 then CHR ''1'' else if d = 2 then CHR ''2''
      else if d = 3 then CHR ''3'' else if d = 4 then CHR ''4'' else if d = 5 then CHR ''5''
      else if d = 6 then CHR ''6'' else if d = 7 then CHR ''7'' else if d = 8 then CHR ''8''
      else CHR ''9'')"

function dec_string :: "int \<Rightarrow> string" where
  "dec_string n = (if n < 10 then [digit_char n] else dec_string (n div 10) @ [digit_char (n mod 10)])"
  by pat_completeness auto
termination
  by (relation "measure nat") (auto intro!: int_div_less_self)

declare dec_string.simps [simp del]

definition roundtrips :: "int \<Rightarrow> int \<Rightarrow> int \<Rightarrow> int \<Rightarrow> bool" where
  "roundtrips m e s p = (let (a, b) = scale 10 s 1 p in round_ratio a b = Some (m, e))"

definition digits_at :: "int \<Rightarrow> int \<Rightarrow> int \<Rightarrow> int \<Rightarrow> (int \<times> int) option" where
  "digits_at m e n k =
     (let (a, b) = scale 2 m 1 e;
          (c, d) = scale 10 a b (k - n);
          lo = c div d;
          r = c mod d;
          (hi, hn) = (if lo + 1 = 10 ^ nat k then (10 ^ nat (k - 1), n + 1) else (lo + 1, n));
          lo_ok = roundtrips m e lo (n - k);
          hi_ok = roundtrips m e hi (hn - k)
      in if lo_ok \<and> (\<not> hi_ok \<or> 2 * r < d \<or> (2 * r = d \<and> even lo)) then Some (lo, n)
         else if hi_ok then Some (hi, hn)
         else None)"

fun shortest :: "int \<Rightarrow> int \<Rightarrow> int \<Rightarrow> int list \<Rightarrow> (int \<times> int) option" where
  "shortest m e n [] = None"
| "shortest m e n (k # ks) =
     (case digits_at m e n k of Some r \<Rightarrow> Some r | None \<Rightarrow> shortest m e n ks)"

definition format_number :: "string \<Rightarrow> int \<Rightarrow> string" where
  "format_number ds n =
     (let k = int (length ds) in
      if k \<le> n \<and> n \<le> 21 then ds @ replicate (nat (n - k)) CHR ''0''
      else if 0 < n \<and> n \<le> 21 then take (nat n) ds @ ''.'' @ drop (nat n) ds
      else if - 6 < n \<and> n \<le> 0 then ''0.'' @ replicate (nat (- n)) CHR ''0'' @ ds
      else (let x = n - 1;
                sg = (if x < 0 then ''-'' else ''+'');
                ex = dec_string \<bar>x\<bar>
            in if k = 1 then ds @ ''e'' @ sg @ ex
               else take 1 ds @ ''.'' @ drop 1 ds @ ''e'' @ sg @ ex))"

definition pos_string :: "int \<Rightarrow> int \<Rightarrow> string" where
  "pos_string m e =
     (let (a, b) = scale 2 m 1 e;
          n = floor_log 10 a b + 1
      in case shortest m e n [1, 2, 3, 4, 5, 6, 7, 8, 9, 10, 11, 12, 13, 14, 15, 16, 17] of
           Some (s, n') \<Rightarrow> format_number (dec_string s) n'
         | None \<Rightarrow> (let (c, d) = scale 10 a b (17 - n) in format_number (dec_string (c div d)) n))"

fun Number_toString :: "double \<Rightarrow> string" where
  "Number_toString NaN = ''NaN''"
| "Number_toString (Infty s) = (if s then ''-Infinity'' else ''Infinity'')"
| "Number_toString (Finite s m e) =
     (if m = 0 then ''0'' else (if s then ''-'' else []) @ pos_string m e)"

section \<open>Strings\<close>

text \<open>
  A JavaScript string is a sequence of 16-bit code units. It is kept here as a \<open>string\<close>
  in which a code unit below \<open>0x80\<close> is one character, and a larger one is the two or three
  characters of its UTF-8 style encoding (each code unit encoded on its own). Concatenation,
  comparison, emptiness and the search for an ASCII character are the same on both sides.
  The texts the calculator itself builds are ASCII.
\<close>

fun strip_prefix :: "'a list \<Rightarrow> 'a list \<Rightarrow> 'a list option" where
  "strip_prefix [] ys = Some ys"
| "strip_prefix (x # xs) [] = None"
| "strip_prefix (x # xs) (y # ys) = (if x = y then strip_prefix xs ys else None)"

fun strip_any :: "'a list list \<Rightarrow> 'a list \<Rightarrow> 'a list option" where
  "strip_any [] s = None"
| "strip_any (p # ps) s =
     (if p = [] then strip_any ps s
      else case strip_prefix p s of Some r \<Rightarrow> Some r | None \<Rightarrow> strip_any ps s)"

lemma strip_prefix_length: "strip_prefix p s = Some r \<Longrightarrow> length s = length p + length r"
  by (induction p s rule: strip_prefix.induct) (auto split: if_splits)

lemma strip_any_shorter: "strip_any ps s = Some r \<Longrightarrow> length r < length s"
  by (induction ps s rule: strip_any.induct)
     (auto split: if_splits option.splits dest: strip_prefix_length)

function trim_with :: "string list \<Rightarrow> string \<Rightarrow> string" where
  "trim_with ps s = (case strip_any ps s of Some r \<Rightarrow> trim_with ps r | None \<Rightarrow> s)"
  by pat_completeness auto
termination
  by (relation "measure (\<lambda>(ps, s). length s)") (auto dest: strip_any_shorter)

declare trim_with.simps [simp del]

text \<open>
  The white space and line terminators that \<open>trim\<close> and \<open>parseFloat\<close> skip.
\<close>

definition white_space :: "string list" where
  "white_space =
     [[CHR 0x09], [CHR 0x0A], [CHR 0x0B], [CHR 0x0C], [CHR 0x0D], [CHR 0x20],
      [CHR 0xC2, CHR 0xA0], [CHR 0xE1, CHR 0x9A, CHR 0x80],
      [CHR 0xE2, CHR 0x80, CHR 0x80], [CHR 0xE2, CHR 0x80, CHR 0x81],
      [CHR 0xE2, CHR 0x80, CHR 0x82], [CHR 0xE2, CHR 0x80, CHR 0x83],
      [CHR 0xE2, CHR 0x80, CHR 0x84], [CHR 0xE2, CHR 0x80, CHR 0x85],
      [CHR 0xE2, CHR 0x80, CHR 0x86], [CHR 0xE2, CHR 0x80, CHR 0x87],
      [CHR 0xE2, CHR 0x80, CHR 0x88], [CHR 0xE2, CHR 0x80, CHR 0x89],
      [CHR 0xE2, CHR 0x80, CHR 0x8A], [CHR 0xE2, CHR 0x80, CHR 0xA8],
      [CHR 0xE2, CHR 0x80, CHR 0xA9], [CHR 0xE2, CHR 0x80, CHR 0xAF],
      [CHR 0xE2, CHR 0x81, CHR 0x9F], [CHR 0xE3, CHR 0x80, CHR 0x80],
      [CHR 0xEF, CHR 0xBB, CHR 0xBF]]"

definition trim_start :: "string \<Rightarrow> string" where
  "trim_start s = trim_with white_space s"

definition trim :: "string \<Rightarrow> string" where
  "trim s = rev (trim_with (map rev white_space) (rev (trim_start s)))"

subsection \<open>\<open>parseFloat\<close>\<close>

text \<open>
  \<open>parseFloat\<close> skips leading white space and reads the longest prefix that is a decimal
  literal: a sign, then \<open>Infinity\<close> or digits with an optional fraction and an optional
  exponent. The exponent counts only when it has a digit. With no digit at all the result is
  \<open>NaN\<close>. The decimal value is rounded once.
\<close>

definition is_digit :: "char \<Rightarrow> bool" where
  "is_digit c = (c \<in> set ''0123456789'')"

definition digit_val :: "char \<Rightarrow> int" where
  "digit_val c = of_char c - 48"

definition dec_value :: "string \<Rightarrow> int" where
  "dec_value ds = foldl (\<lambda>v c. 10 * v + digit_val c) 0 ds"

definition read_sign :: "string \<Rightarrow> bool \<times> string" where
  "read_sign s =
     (case s of
        [] \<Rightarrow> (False, s)
      | c # r \<Rightarrow> if c = CHR ''-'' then (True, r) else if c = CHR ''+'' then (False, r) else (False, s))"

definition exponent_part :: "string \<Rightarrow> int" where
  "exponent_part s =
     (case s of
        [] \<Rightarrow> 0
      | c # r \<Rightarrow>
          if c = CHR ''e'' \<or> c = CHR ''E''
          then (let (sg, r') = read_sign r;
                    ds = takeWhile is_digit r'
                in if ds = [] then 0 else if sg then - dec_value ds else dec_value ds)
          else 0)"

definition parseFloat :: "string \<Rightarrow> double" where
  "parseFloat str =
     (let (sg, s) = read_sign (trim_start str) in
      case strip_prefix ''Infinity'' s of
        Some r \<Rightarrow> Infty sg
      | None \<Rightarrow>
          (let ip = takeWhile is_digit s;
               r1 = dropWhile is_digit s;
               (fp, r2) = (case r1 of
                            [] \<Rightarrow> ([], r1)
                          | c # r \<Rightarrow> if c = CHR ''.''
                                     then (takeWhile is_digit r, dropWhile is_digit r)
                                     else ([], r1))
           in if ip = [] \<and> fp = [] then NaN
              else (let (a, b) = scale 10 (dec_value (ip @ fp)) 1 (exponent_part r2 - int (length fp))
                    in to_double sg a b)))"

section \<open>JSON\<close>

text \<open>
  The values \<open>JSON.parse\<close> returns. An object is the list of its properties in
  enumeration order. The two exceptions of the script are \<open>SyntaxError\<close>, from
  \<open>JSON.parse\<close>, and \<open>TypeError\<close>, from a call of something that is not a function or a
  property read on \<open>null\<close> or \<open>undefined\<close>.
\<close>

datatype js_error = SyntaxError | TypeError

datatype jsval =
    JNull
  | JBool bool
  | JNum double
  | JStr string
  | JArr "jsval list"
  | JObj "(string \<times> jsval) list"

subsection \<open>Tokens\<close>

datatype token =
    TLBrace | TRBrace | TLBracket | TRBracket | TColon | TComma
  | TStr string | TNum double | TTrue | TFalse | TNull

definition hex_val :: "char \<Rightarrow> nat option" where
  "hex_val c =
     (let n = (of_char c :: nat) in
      if 48 \<le> n \<and> n \<le> 57 then Some (n - 48)
      else if 97 \<le> n \<and> n \<le> 102 then Some (n - 87)
      else if 65 \<le> n \<and> n \<le> 70 then Some (n - 55)
      else None)"

definition hex4 :: "char \<Rightarrow> char \<Rightarrow> char \<Rightarrow> char \<Rightarrow> nat option" where
  "hex4 a b c d =
     (case (hex_val a, hex_val b, hex_val c, hex_val d) of
        (Some w, Some x, Some y, Some z) \<Rightarrow> Some (((w * 16 + x) * 16 + y) * 16 + z)
      | _ \<Rightarrow> None)"

definition encode_unit :: "nat \<Rightarrow> string" where
  "encode_unit u =
     (if u < 0x80 then [char_of u]
      else if u < 0x800 then [char_of (0xC0 + u div 64), char_of (0x80 + u mod 64)]
      else [char_of (0xE0 + u div 4096), char_of (0x80 + (u div 64) mod 64),
            char_of (0x80 + u mod 64)])"

definition simple_escape :: "char \<Rightarrow> char option" where
  "simple_escape c =
     (if c = CHR 0x22 then Some (CHR 0x22)
      else if c = CHR 0x5C then Some (CHR 0x5C)
      else if c = CHR ''/'' then Some (CHR ''/'')
      else if c = CHR ''b'' then Some (CHR 0x08)
      else if c = CHR ''f'' then Some (CHR 0x0C)
      else if c = CHR ''n'' then Some (CHR 0x0A)
      else if c = CHR ''r'' then Some (CHR 0x0D)
      else if c = CHR ''t'' then Some (CHR 0x09)
      else None)"

definition prepend :: "'a list \<Rightarrow> ('a list \<times> 'b) option \<Rightarrow> ('a list \<times> 'b) option" where
  "prepend xs r = map_option (\<lambda>(ys, rest). (xs @ ys, rest)) r"

text \<open>
  One character of a string literal: itself, or an escape. A \<open>\\u\<close> escape gives a code
  unit, stored in its encoding. Control characters must be escaped.
\<close>

definition lex_char :: "string \<Rightarrow> (string \<times> string) option" where
  "lex_char s =
     (case s of
        [] \<Rightarrow> None
      | c # cs \<Rightarrow>
          if c = CHR 0x5C then
            (case cs of
               [] \<Rightarrow> None
             | e # r \<Rightarrow>
                 if e = CHR ''u'' then
                   (case r of
                      h1 # h2 # h3 # h4 # r' \<Rightarrow>
                        map_option (\<lambda>u. (encode_unit u, r')) (hex4 h1 h2 h3 h4)
                    | _ \<Rightarrow> None)
                 else map_option (\<lambda>x. ([x], r)) (simple_escape e))
          else if (of_char c :: nat) < 0x20 then None
          else Some ([c], cs))"

lemma lex_char_shorter: "lex_char s = Some (x, r) \<Longrightarrow> length r < length s"
  by (auto simp: lex_char_def split: list.splits if_splits)

function lex_string :: "string \<Rightarrow> (string \<times> string) option" where
  "lex_string [] = None"
| "lex_string (c # cs) =
     (if c = CHR 0x22 then Some ([], cs)
      else case lex_char (c # cs) of
             None \<Rightarrow> None
           | Some (x, r) \<Rightarrow> prepend x (lex_string r))"
  by pat_completeness auto
termination
  by (relation "measure length") (auto dest: lex_char_shorter)

declare lex_string.simps [simp del]

lemma prepend_Some:
  "prepend xs r = Some (ys, rest) \<Longrightarrow> \<exists>zs. r = Some (zs, rest)"
  by (cases r) (auto simp: prepend_def)

lemma lex_string_shorter: "lex_string s = Some (t, r) \<Longrightarrow> length r < length s"
proof (induction s arbitrary: t rule: lex_string.induct)
  case 1
  then show ?case by (simp add: lex_string.simps)
next
  case (2 c cs)
  show ?case
  proof (cases "c = CHR 0x22")
    case True
    with "2.prems" show ?thesis by (simp add: lex_string.simps)
  next
    case False
    with "2.prems" obtain x r0 zs where
      c: "lex_char (c # cs) = Some (x, r0)" and l: "lex_string r0 = Some (zs, r)"
      by (auto simp: lex_string.simps split: option.splits dest: prepend_Some)
    from "2.IH" [OF False c refl l] lex_char_shorter [OF c] show ?thesis
      by simp
  qed
qed

text \<open>
  A JSON number: an optional minus, an integer part without leading zeros, an optional
  fraction and an optional exponent, each with at least one digit.
\<close>

definition int_part :: "string \<Rightarrow> (string \<times> string) option" where
  "int_part s =
     (case s of
        [] \<Rightarrow> None
      | c # r \<Rightarrow>
          if c = CHR ''0'' then Some ([c], r)
          else if is_digit c then Some (c # takeWhile is_digit r, dropWhile is_digit r)
          else None)"

definition frac_part :: "string \<Rightarrow> (string \<times> string) option" where
  "frac_part s =
     (case s of
        [] \<Rightarrow> Some ([], s)
      | c # r \<Rightarrow>
          if c = CHR ''.''
          then (if takeWhile is_digit r = [] then None
                else Some (takeWhile is_digit r, dropWhile is_digit r))
          else Some ([], s))"

definition exp_part :: "string \<Rightarrow> (int \<times> string) option" where
  "exp_part s =
     (case s of
        [] \<Rightarrow> Some (0, s)
      | c # r \<Rightarrow>
          if c = CHR ''e'' \<or> c = CHR ''E''
          then (let (sg, r') = read_sign r;
                    ds = takeWhile is_digit r'
                in if ds = [] then None
                   else Some (if sg then - dec_value ds else dec_value ds, dropWhile is_digit r'))
          else Some (0, s))"

definition lex_number :: "string \<Rightarrow> (double \<times> string) option" where
  "lex_number s =
     (let (sg, s1) = (case s of
                        [] \<Rightarrow> (False, s)
                      | c # r \<Rightarrow> if c = CHR ''-'' then (True, r) else (False, s))
      in case int_part s1 of
           None \<Rightarrow> None
         | Some (ip, r1) \<Rightarrow>
            (case frac_part r1 of
               None \<Rightarrow> None
             | Some (fp, r2) \<Rightarrow>
                (case exp_part r2 of
                   None \<Rightarrow> None
                 | Some (ex, r3) \<Rightarrow>
                    (let (a, b) = scale 10 (dec_value (ip @ fp)) 1 (ex - int (length fp))
                     in Some (to_double sg a b, r3)))))"

lemma int_part_shorter: "int_part s = Some (ip, r) \<Longrightarrow> length r < length s"
  by (auto simp: int_part_def less_Suc_eq_le length_dropWhile_le split: list.splits if_splits)

lemma frac_part_le: "frac_part s = Some (fp, r) \<Longrightarrow> length r \<le> length s"
  by (auto simp: frac_part_def le_SucI length_dropWhile_le split: list.splits if_splits)

lemma read_sign_le: "read_sign s = (sg, r) \<Longrightarrow> length r \<le> length s"
  by (auto simp: read_sign_def split: list.splits if_splits)

lemma exp_part_le: "exp_part s = Some (ex, r) \<Longrightarrow> length r \<le> length s"
proof (cases s)
  case Nil
  assume "exp_part s = Some (ex, r)"
  with Nil show ?thesis by (simp add: exp_part_def)
next
  case (Cons c cs)
  assume a: "exp_part s = Some (ex, r)"
  show ?thesis
  proof (cases "c = CHR ''e'' \<or> c = CHR ''E''")
    case False
    with a Cons show ?thesis by (simp add: exp_part_def)
  next
    case True
    obtain sg r' where rs: "read_sign cs = (sg, r')" by (cases "read_sign cs")
    with a Cons True have "r = dropWhile is_digit r'"
      by (auto simp: exp_part_def Let_def split: if_splits)
    then have "length r \<le> length r'" by (simp add: length_dropWhile_le)
    with read_sign_le [OF rs] Cons show ?thesis by simp
  qed
qed

lemma lex_number_shorter:
  assumes "lex_number s = Some (d, r)"
  shows "length r < length s"
proof -
  obtain sg s1 where s1: "(case s of [] \<Rightarrow> (False, s)
      | c # r \<Rightarrow> if c = CHR ''-'' then (True, r) else (False, s)) = (sg, s1)"
    by (cases "(case s of [] \<Rightarrow> (False, s)
      | c # r \<Rightarrow> if c = CHR ''-'' then (True, r) else (False, s))")
  then have l1: "length s1 \<le> length s"
    by (auto split: list.splits if_splits)
  from assms s1 obtain ip r1 fp r2 ex where
    "int_part s1 = Some (ip, r1)" "frac_part r1 = Some (fp, r2)" "exp_part r2 = Some (ex, r)"
    by (auto simp: lex_number_def split: option.splits prod.splits)
  with l1 int_part_shorter frac_part_le exp_part_le show ?thesis
    by fastforce
qed

definition json_ws :: "char \<Rightarrow> bool" where
  "json_ws c = (c = CHR 0x20 \<or> c = CHR 0x09 \<or> c = CHR 0x0A \<or> c = CHR 0x0D)"

definition keyword :: "string \<Rightarrow> token \<Rightarrow> string \<Rightarrow> (token \<times> string) option" where
  "keyword w t s = map_option (\<lambda>r. (t, r)) (strip_prefix w s)"

definition next_token :: "string \<Rightarrow> (token \<times> string) option" where
  "next_token s =
     (case s of
        [] \<Rightarrow> None
      | c # cs \<Rightarrow>
          if c = CHR ''{'' then Some (TLBrace, cs)
          else if c = CHR ''}'' then Some (TRBrace, cs)
          else if c = CHR ''['' then Some (TLBracket, cs)
          else if c = CHR '']'' then Some (TRBracket, cs)
          else if c = CHR '':'' then Some (TColon, cs)
          else if c = CHR '','' then Some (TComma, cs)
          else if c = CHR 0x22 then map_option (\<lambda>(x, r). (TStr x, r)) (lex_string cs)
          else if c = CHR ''-'' \<or> is_digit c then map_option (\<lambda>(d, r). (TNum d, r)) (lex_number s)
          else if c = CHR ''t'' then keyword ''true'' TTrue s
          else if c = CHR ''f'' then keyword ''false'' TFalse s
          else if c = CHR ''n'' then keyword ''null'' TNull s
          else None)"

lemma keyword_shorter:
  assumes "keyword w t s = Some (t', r)" and "w \<noteq> []"
  shows "length r < length s"
proof -
  from assms(1) have "strip_prefix w s = Some r"
    by (cases "strip_prefix w s") (simp_all add: keyword_def)
  from strip_prefix_length [OF this] assms(2) show ?thesis
    by (cases w) simp_all
qed

lemma next_token_cases:
  assumes "next_token (c # cs) = Some (t, r)"
  shows "r = cs \<or> (\<exists>x. lex_string cs = Some (x, r)) \<or> (\<exists>d. lex_number (c # cs) = Some (d, r))
     \<or> keyword ''true'' TTrue (c # cs) = Some (t, r)
     \<or> keyword ''false'' TFalse (c # cs) = Some (t, r)
     \<or> keyword ''null'' TNull (c # cs) = Some (t, r)"
  using assms unfolding next_token_def list.case
  by (simp split: if_splits) blast+

lemma next_token_shorter:
  assumes "next_token s = Some (t, r)"
  shows "length r < length s"
proof (cases s)
  case Nil
  with assms show ?thesis by (simp add: next_token_def)
next
  case (Cons c cs)
  with assms have "next_token (c # cs) = Some (t, r)" by simp
  from next_token_cases [OF this] Cons show ?thesis
    using lex_string_shorter [of cs _ r] lex_number_shorter [of s _ r]
      keyword_shorter [of "''true''" TTrue s t r]
      keyword_shorter [of "''false''" TFalse s t r]
      keyword_shorter [of "''null''" TNull s t r]
    by (elim disjE exE) simp_all
qed

function tokenize :: "string \<Rightarrow> token list option" where
  "tokenize s =
     (case dropWhile json_ws s of
        [] \<Rightarrow> Some []
      | c # cs \<Rightarrow>
          (case next_token (c # cs) of
             None \<Rightarrow> None
           | Some (t, r) \<Rightarrow> map_option (\<lambda>ts. t # ts) (tokenize r)))"
  by pat_completeness auto
termination
proof (relation "measure length", goal_cases)
  case 1
  show ?case by simp
next
  case (2 s c cs p t r)
  from next_token_shorter [of "c # cs" t r] 2 have "length r < length (dropWhile json_ws s)"
    by simp
  also have "\<dots> \<le> length s" by (rule length_dropWhile_le)
  finally show ?case by simp
qed

declare tokenize.simps [simp del]

subsection \<open>Parsing\<close>

text \<open>
  A property is added to an object as JavaScript does: an existing key keeps its place and
  takes the new value; otherwise array indices come first, in ascending order, and the other
  keys follow in the order of their creation.
\<close>

definition array_index :: "string \<Rightarrow> int option" where
  "array_index k =
     (if k \<noteq> [] \<and> list_all is_digit k \<and> (k = ''0'' \<or> hd k \<noteq> CHR ''0'')
         \<and> dec_value k < 4294967295
      then Some (dec_value k) else None)"

fun insert_index :: "int \<Rightarrow> string \<Rightarrow> jsval \<Rightarrow> (string \<times> jsval) list \<Rightarrow> (string \<times> jsval) list" where
  "insert_index i k v [] = [(k, v)]"
| "insert_index i k v (p # ps) =
     (case array_index (fst p) of
        Some j \<Rightarrow> if j < i then p # insert_index i k v ps else (k, v) # p # ps
      | None \<Rightarrow> (k, v) # p # ps)"

definition obj_put :: "string \<Rightarrow> jsval \<Rightarrow> (string \<times> jsval) list \<Rightarrow> (string \<times> jsval) list" where
  "obj_put k v ms =
     (if k \<in> set (map fst ms) then AList.update k v ms
      else case array_index k of
             Some i \<Rightarrow> insert_index i k v ms
           | None \<Rightarrow> ms @ [(k, v)])"

text \<open>
  The parser reads the tokens from left to right with a stack of the containers that are
  still open. \<open>FArr\<close> holds the elements read so far, \<open>FObj\<close> the properties read so far
  and the key whose value is being read.
\<close>

datatype frame = FArr "jsval list" | FObj "(string \<times> jsval) list" string

datatype mode =
    Val "frame list"
  | ArrFirst "frame list"
  | ObjFirst "frame list"
  | ObjKey "(string \<times> jsval) list" "frame list"
  | ObjColon "(string \<times> jsval) list" string "frame list"
  | ArrNext "jsval list" "frame list"
  | ObjNext "(string \<times> jsval) list" "frame list"
  | Complete jsval

fun complete :: "jsval \<Rightarrow> frame list \<Rightarrow> mode" where
  "complete v [] = Complete v"
| "complete v (FArr items # st) = ArrNext (items @ [v]) st"
| "complete v (FObj ms k # st) = ObjNext (obj_put k v ms) st"

fun value_start :: "token \<Rightarrow> frame list \<Rightarrow> mode option" where
  "value_start TLBracket st = Some (ArrFirst st)"
| "value_start TLBrace st = Some (ObjFirst st)"
| "value_start (TStr s) st = Some (complete (JStr s) st)"
| "value_start (TNum d) st = Some (complete (JNum d) st)"
| "value_start TTrue st = Some (complete (JBool True) st)"
| "value_start TFalse st = Some (complete (JBool False) st)"
| "value_start TNull st = Some (complete JNull st)"
| "value_start t st = None"

fun step :: "mode \<Rightarrow> token \<Rightarrow> mode option" where
  "step (Val st) t = value_start t st"
| "step (ArrFirst st) t =
     (if t = TRBracket then Some (complete (JArr []) st) else value_start t (FArr [] # st))"
| "step (ObjFirst st) t =
     (case t of
        TRBrace \<Rightarrow> Some (complete (JObj []) st)
      | TStr k \<Rightarrow> Some (ObjColon [] k st)
      | _ \<Rightarrow> None)"
| "step (ObjKey ms st) t = (case t of TStr k \<Rightarrow> Some (ObjColon ms k st) | _ \<Rightarrow> None)"
| "step (ObjColon ms k st) t = (if t = TColon then Some (Val (FObj ms k # st)) else None)"
| "step (ArrNext items st) t =
     (case t of
        TComma \<Rightarrow> Some (Val (FArr items # st))
      | TRBracket \<Rightarrow> Some (complete (JArr items) st)
      | _ \<Rightarrow> None)"
| "step (ObjNext ms st) t =
     (case t of
        TComma \<Rightarrow> Some (ObjKey ms st)
      | TRBrace \<Rightarrow> Some (complete (JObj ms) st)
      | _ \<Rightarrow> None)"
| "step (Complete v) t = None"

fun parse_tokens :: "mode \<Rightarrow> token list \<Rightarrow> jsval option" where
  "parse_tokens m [] = (case m of Complete v \<Rightarrow> Some v | _ \<Rightarrow> None)"
| "parse_tokens m (t # ts) = (case step m t of None \<Rightarrow> None | Some m' \<Rightarrow> parse_tokens m' ts)"

definition JSON_parse :: "string \<Rightarrow> js_error + jsval" where
  "JSON_parse text =
     (case tokenize text of
        None \<Rightarrow> Inl SyntaxError
      | Some ts \<Rightarrow>
          (case parse_tokens (Val []) ts of
             None \<Rightarrow> Inl SyntaxError
           | Some v \<Rightarrow> Inr v))"

subsection \<open>\<open>JSON.stringify\<close>\<close>

text \<open>
  Strings are quoted with the escapes of \<open>JSON.stringify\<close>; a surrogate code unit that
  is not part of a pair is written as a \<open>\\u\<close> escape. Numbers that are not finite become
  \<open>null\<close>.
\<close>

definition hex_digit :: "nat \<Rightarrow> char" where
  "hex_digit n = (if n < 10 then char_of (48 + n) else char_of (87 + n))"

definition unicode_escape :: "nat \<Rightarrow> string" where
  "unicode_escape u =
     [CHR 0x5C, CHR ''u'', hex_digit (u div 4096), hex_digit ((u div 256) mod 16),
      hex_digit ((u div 16) mod 16), hex_digit (u mod 16)]"

definition surrogate :: "char \<Rightarrow> char \<Rightarrow> nat" where
  "surrogate b c = 0xD000 + ((of_char b :: nat) - 0x80) * 64 + ((of_char c :: nat) - 0x80)"

definition is_high :: "char \<Rightarrow> bool" where
  "is_high b = (0xA0 \<le> (of_char b :: nat) \<and> (of_char b :: nat) \<le> 0xAF)"

definition is_low :: "char \<Rightarrow> bool" where
  "is_low b = (0xB0 \<le> (of_char b :: nat) \<and> (of_char b :: nat) \<le> 0xBF)"

fun quote_chars :: "string \<Rightarrow> string" where
  "quote_chars [] = []"
| "quote_chars (c # cs) =
     (if c = CHR 0x22 then [CHR 0x5C, CHR 0x22] @ quote_chars cs
      else if c = CHR 0x5C then [CHR 0x5C, CHR 0x5C] @ quote_chars cs
      else if c = CHR 0x08 then [CHR 0x5C, CHR ''b''] @ quote_chars cs
      else if c = CHR 0x0C then [CHR 0x5C, CHR ''f''] @ quote_chars cs
      else if c = CHR 0x0A then [CHR 0x5C, CHR ''n''] @ quote_chars cs
      else if c = CHR 0x0D then [CHR 0x5C, CHR ''r''] @ quote_chars cs
      else if c = CHR 0x09 then [CHR 0x5C, CHR ''t''] @ quote_chars cs
      else if (of_char c :: nat) < 0x20 then unicode_escape (of_char c) @ quote_chars cs
      else if c = CHR 0xED then
        (case cs of
           b1 # b2 # r \<Rightarrow>
             if is_high b1 then
               (case r of
                  d0 # d1 # d2 # r' \<Rightarrow>
                    if d0 = CHR 0xED \<and> is_low d1
                    then [c, b1, b2, d0, d1, d2] @ quote_chars r'
                    else unicode_escape (surrogate b1 b2) @ quote_chars r
                | _ \<Rightarrow> unicode_escape (surrogate b1 b2) @ quote_chars r)
             else if is_low b1 then unicode_escape (surrogate b1 b2) @ quote_chars r
             else c # quote_chars cs
         | _ \<Rightarrow> c # quote_chars cs)
      else c # quote_chars cs)"

definition quote :: "string \<Rightarrow> string" where
  "quote s = [CHR 0x22] @ quote_chars s @ [CHR 0x22]"

fun join :: "string \<Rightarrow> string list \<Rightarrow> string" where
  "join sep [] = []"
| "join sep [x] = x"
| "join sep (x # y # ys) = x @ sep @ join sep (y # ys)"

fun JSON_stringify :: "jsval \<Rightarrow> string" where
  "JSON_stringify JNull = ''null''"
| "JSON_stringify (JBool b) = (if b then ''true'' else ''false'')"
| "JSON_stringify (JNum d) =
     (case d of Finite s m e \<Rightarrow> Number_toString d | _ \<Rightarrow> ''null'')"
| "JSON_stringify (JStr s) = quote s"
| "JSON_stringify (JArr xs) = ''['' @ join '','' (map JSON_stringify xs) @ '']''"
| "JSON_stringify (JObj ms) =
     ''{'' @ join '','' (map (\<lambda>p. quote (fst p) @ '':'' @ JSON_stringify (snd p)) ms) @ ''}''"

subsection \<open>Conversion to string\<close>

text \<open>
  \<open>ToString\<close> of a parsed value, as a template literal applies it. An array joins its
  elements with commas, \<open>null\<close> elements giving the empty string. A plain object gives
  \<open>[object Object]\<close>, unless it has a property \<open>toString\<close> of its own: that property is
  not a function, and the conversion throws.
\<close>

fun ToString :: "jsval \<Rightarrow> js_error + string"
  and ToString_elements :: "jsval list \<Rightarrow> js_error + string list" where
  "ToString JNull = Inr ''null''"
| "ToString (JBool b) = Inr (if b then ''true'' else ''false'')"
| "ToString (JNum d) = Inr (Number_toString d)"
| "ToString (JStr s) = Inr s"
| "ToString (JArr xs) =
     (case ToString_elements xs of Inl e \<Rightarrow> Inl e | Inr ss \<Rightarrow> Inr (join '','' ss))"
| "ToString (JObj ms) =
     (if ''toString'' \<in> set (map fst ms) then Inl TypeError else Inr ''[object Object]'')"
| "ToString_elements [] = Inr []"
| "ToString_elements (x # xs) =
     (case (if x = JNull then Inr [] else ToString x) of
        Inl e \<Rightarrow> Inl e
      | Inr s \<Rightarrow> (case ToString_elements xs of Inl e \<Rightarrow> Inl e | Inr ss \<Rightarrow> Inr (s # ss)))"

section \<open>The calculator\<close>

text \<open>
  The script \<open>script.js\<close>. The operator buttons pass their text to
  \<open>handleOperator\<close>; the page is not part of the sources, and the texts are taken to be the
  four keys of the table \<open>performCalculation\<close>.
\<close>

datatype op = Add | Subtract | Multiply | Divide

fun op_text :: "op \<Rightarrow> string" where
  "op_text Divide = ''/''"
| "op_text Multiply = ''*''"
| "op_text Add = ''+''"
| "op_text Subtract = ''-''"

text \<open>
  A calculation yields a number, or the string \<open>Error\<close> for a division by zero; the
  variable \<open>previousInput\<close> holds such a value, or the empty string.
\<close>

datatype calcval = Num double | Str string

fun String_of :: "calcval \<Rightarrow> string" where
  "String_of (Num d) = Number_toString d"
| "String_of (Str s) = s"

fun performCalculation :: "op \<Rightarrow> double \<Rightarrow> double \<Rightarrow> calcval" where
  "performCalculation Divide firstOperand secondOperand =
     (if \<not> strict_eq secondOperand (num 0) then Num (ddiv firstOperand secondOperand)
      else Str ''Error'')"
| "performCalculation Multiply firstOperand secondOperand = Num (dmul firstOperand secondOperand)"
| "performCalculation Add firstOperand secondOperand = Num (dadd firstOperand secondOperand)"
| "performCalculation Subtract firstOperand secondOperand = Num (dsub firstOperand secondOperand)"

text \<open>
  The state is the five variables of the script, the store \<open>localStorage\<close> and the
  three elements of the document the script writes to: the text of the two displays, and for
  the history list the markup assigned to its \<open>innerHTML\<close> together with the \<open>innerHTML\<close>
  of the items appended since. The variable \<open>history\<close> holds whatever \<open>JSON.parse\<close>
  returned, so it is a \<open>jsval\<close>. A write to the store is taken to succeed.
\<close>

record state =
  currentInput :: string
  operator :: "op option"
  previousInput :: calcval
  history :: jsval
  waitingForSecondOperand :: bool
  localStorage :: "string \<rightharpoonup> string"
  currentDisplay :: string
  historyDisplay :: string
  calculationHistoryList :: "string \<times> string list"

text \<open>
  A function of the script either returns or throws. In both cases the assignments it has
  made so far stay: the state after a throw is part of the result.
\<close>

datatype result = Done state | Thrown js_error state

fun state_of :: "result \<Rightarrow> state" where
  "state_of (Done s) = s"
| "state_of (Thrown e s) = s"

subsection \<open>History\<close>

definition entry :: "string \<Rightarrow> string \<Rightarrow> jsval" where
  "entry expression result = JObj [(''expression'', JStr expression), (''result'', JStr result)]"

definition placeholder :: string where
  "placeholder =
     ''<li style='' @ [CHR 0x22] @ ''text-align: center; color: #888;'' @ [CHR 0x22]
       @ ''>No history yet.</li>''"

definition item_html :: "string \<Rightarrow> string \<Rightarrow> string" where
  "item_html expression result =
     ''<span class='' @ [CHR 0x22] @ ''expression'' @ [CHR 0x22] @ ''>''
       @ trim (takeWhile (\<lambda>c. c \<noteq> CHR ''='') expression)
       @ ''</span><span class='' @ [CHR 0x22] @ ''result'' @ [CHR 0x22] @ ''>= ''
       @ result @ ''</span>''"

definition render_item :: "jsval \<Rightarrow> js_error + string" where
  "render_item item =
     (case item of
        JObj ms \<Rightarrow>
          (case map_of ms ''expression'' of
             Some (JStr expression) \<Rightarrow>
               (case (case map_of ms ''result'' of
                        None \<Rightarrow> Inr ''undefined''
                      | Some v \<Rightarrow> ToString v) of
                  Inl e \<Rightarrow> Inl e
                | Inr r \<Rightarrow> Inr (item_html expression r))
           | _ \<Rightarrow> Inl TypeError)
      | _ \<Rightarrow> Inl TypeError)"

fun render_items :: "jsval list \<Rightarrow> string list \<Rightarrow> string list \<times> js_error option" where
  "render_items [] lis = (lis, None)"
| "render_items (item # items) lis =
     (case render_item item of
        Inl e \<Rightarrow> (lis, Some e)
      | Inr li \<Rightarrow> render_items items (lis @ [li]))"

definition renderHistory :: "state \<Rightarrow> result" where
  "renderHistory s =
     (let s1 = s\<lparr>calculationHistoryList := ([], [])\<rparr>;
          none = Done (s1\<lparr>calculationHistoryList := (placeholder, [])\<rparr>)
      in case history s of
           JNull \<Rightarrow> Thrown TypeError s1
         | JBool b \<Rightarrow> Thrown TypeError s1
         | JNum d \<Rightarrow> Thrown TypeError s1
         | JStr str \<Rightarrow> if str = [] then none else Thrown TypeError s1
         | JObj ms \<Rightarrow>
             (case map_of ms ''length'' of
                Some (JNum d) \<Rightarrow> if strict_eq d (num 0) then none else Thrown TypeError s1
              | _ \<Rightarrow> Thrown TypeError s1)
         | JArr items \<Rightarrow>
             if items = [] then none
             else (case render_items items [] of
                     (lis, None) \<Rightarrow> Done (s1\<lparr>calculationHistoryList := ([], lis)\<rparr>)
                   | (lis, Some e) \<Rightarrow> Thrown e (s1\<lparr>calculationHistoryList := ([], lis)\<rparr>)))"

definition saveHistory :: "state \<Rightarrow> state" where
  "saveHistory s =
     s\<lparr>localStorage := (localStorage s)(''calculatorHistory'' \<mapsto> JSON_stringify (history s))\<rparr>"

definition loadHistory :: "state \<Rightarrow> result" where
  "loadHistory s =
     (case localStorage s ''calculatorHistory'' of
        None \<Rightarrow> Done s
      | Some storedHistory \<Rightarrow>
          if storedHistory = [] then Done s
          else (case JSON_parse storedHistory of
                  Inl e \<Rightarrow> Thrown e s
                | Inr v \<Rightarrow> renderHistory (s\<lparr>history := v\<rparr>)))"

subsection \<open>Engine\<close>

definition updateDisplay :: "state \<Rightarrow> state" where
  "updateDisplay s =
     s\<lparr>currentDisplay := currentInput s,
       historyDisplay := String_of (previousInput s)
          @ (case operator s of None \<Rightarrow> [] | Some opr \<Rightarrow> '' '' @ op_text opr)\<rparr>"

definition appendNumber :: "string \<Rightarrow> state \<Rightarrow> state" where
  "appendNumber number s =
     updateDisplay
       (if waitingForSecondOperand s
        then s\<lparr>currentInput := number, waitingForSecondOperand := False\<rparr>
        else s\<lparr>currentInput := (if currentInput s = ''0'' then number
                                else currentInput s @ number)\<rparr>)"

definition appendDecimal :: "state \<Rightarrow> state" where
  "appendDecimal s =
     updateDisplay
       (if waitingForSecondOperand s
        then s\<lparr>currentInput := ''0.'', waitingForSecondOperand := False\<rparr>
        else if CHR ''.'' \<notin> set (currentInput s)
        then s\<lparr>currentInput := currentInput s @ ''.''\<rparr>
        else s)"

text \<open>
  \<open>addToHistory\<close> calls \<open>unshift\<close> on the log, and \<open>pop\<close> when the length is above 10
  (\<open>capped\<close>). A log that is not an array has no \<open>unshift\<close>.
\<close>

definition capped :: "'a list \<Rightarrow> 'a list" where
  "capped items = (if 10 < length items then butlast items else items)"

definition addToHistory :: "string \<Rightarrow> calcval \<Rightarrow> state \<Rightarrow> result" where
  "addToHistory expression result s =
     (case history s of
        JArr items \<Rightarrow>
          renderHistory (saveHistory
            (s\<lparr>history := JArr (capped (entry expression (String_of result) # items))\<rparr>))
      | _ \<Rightarrow> Thrown TypeError s)"

definition expression_text :: "calcval \<Rightarrow> op \<Rightarrow> string \<Rightarrow> calcval \<Rightarrow> string" where
  "expression_text prev opr cur calculation =
     String_of prev @ '' '' @ op_text opr @ '' '' @ cur @ '' = '' @ String_of calculation"

definition handleOperator :: "op \<Rightarrow> state \<Rightarrow> result" where
  "handleOperator nextOperator s =
     (let inputValue = parseFloat (currentInput s);
          finish = (\<lambda>s'. Done (updateDisplay
                     (s'\<lparr>waitingForSecondOperand := True, operator := Some nextOperator\<rparr>)))
      in if operator s \<noteq> None \<and> waitingForSecondOperand s
         then Done (s\<lparr>operator := Some nextOperator,
                       historyDisplay := String_of (previousInput s) @ '' '' @ op_text nextOperator\<rparr>)
         else if previousInput s = Str []
         then finish (s\<lparr>previousInput := Num inputValue\<rparr>)
         else (case operator s of
                 None \<Rightarrow> finish s
               | Some opr \<Rightarrow>
                   (let calculation =
                          performCalculation opr (parseFloat (String_of (previousInput s))) inputValue;
                        expression = expression_text (previousInput s) opr (currentInput s) calculation
                    in case addToHistory expression calculation s of
                         Thrown e s' \<Rightarrow> Thrown e s'
                       | Done s' \<Rightarrow>
                           finish (s'\<lparr>currentInput := String_of calculation,
                                       previousInput := calculation\<rparr>))))"

definition calculateResult :: "state \<Rightarrow> result" where
  "calculateResult s =
     (case operator s of
        None \<Rightarrow> Done s
      | Some opr \<Rightarrow>
          if waitingForSecondOperand s then Done s
          else (let inputValue = parseFloat (currentInput s);
                    calculation =
                      performCalculation opr (parseFloat (String_of (previousInput s))) inputValue;
                    expression = expression_text (previousInput s) opr (currentInput s) calculation
                in case addToHistory expression calculation s of
                     Thrown e s' \<Rightarrow> Thrown e s'
                   | Done s' \<Rightarrow>
                       Done (updateDisplay
                         (s'\<lparr>currentInput := String_of calculation, operator := None,
                             previousInput := Str [], waitingForSecondOperand := False\<rparr>))))"

definition clearCalculator :: "state \<Rightarrow> state" where
  "clearCalculator s =
     updateDisplay (s\<lparr>currentInput := ''0'', operator := None, previousInput := Str [],
                      waitingForSecondOperand := False\<rparr>)"

definition toggleNegative :: "state \<Rightarrow> state" where
  "toggleNegative s =
     updateDisplay
       (s\<lparr>currentInput := Number_toString (dmul (parseFloat (currentInput s)) (num (- 1)))\<rparr>)"

definition calculatePercentage :: "state \<Rightarrow> state" where
  "calculatePercentage s =
     updateDisplay
       (s\<lparr>currentInput := Number_toString (ddiv (parseFloat (currentInput s)) (num 100))\<rparr>)"

definition clearAllHistory :: "state \<Rightarrow> result" where
  "clearAllHistory s = renderHistory (saveHistory (s\<lparr>history := JArr []\<rparr>))"

subsection \<open>Events\<close>

text \<open>
  The click handler dispatches on the class of the button. An exception ends the handler
  and the page goes on with the next event, in the state the handler left. \<open>startup\<close> is
  the end of the \<open>DOMContentLoaded\<close> handler; its argument is the page before the script
  has run, of which only the store and the document matter: \<open>initial\<close> gives the five
  variables their first values. \<open>blank_page\<close> is a page with an empty store and an empty
  document.
\<close>

datatype action =
    Digit string | DecimalPoint | Operator op | Equals | Clear | Negate | Percent | ClearHistory

fun click :: "action \<Rightarrow> state \<Rightarrow> result" where
  "click (Digit number) s = Done (appendNumber number s)"
| "click (Operator opr) s = handleOperator opr s"
| "click Negate s = Done (toggleNegative s)"
| "click Percent s = Done (calculatePercentage s)"
| "click DecimalPoint s = Done (appendDecimal s)"
| "click Clear s = Done (clearCalculator s)"
| "click Equals s = calculateResult s"
| "click ClearHistory s = clearAllHistory s"

fun run :: "action list \<Rightarrow> state \<Rightarrow> state" where
  "run [] s = s"
| "run (a # as) s = run as (state_of (click a s))"

definition initial :: "state \<Rightarrow> state" where
  "initial page =
     page\<lparr>currentInput := ''0'', operator := None, previousInput := Str [],
          history := JArr [], waitingForSecondOperand := False\<rparr>"

definition startup :: "state \<Rightarrow> result" where
  "startup page =
     (case loadHistory (initial page) of
        Thrown e s \<Rightarrow> Thrown e s
      | Done s \<Rightarrow> Done (updateDisplay s))"

definition blank_page :: state where
  "blank_page =
     \<lparr>currentInput = [], operator = None, previousInput = Str [], history = JNull,
      waitingForSecondOperand = False, localStorage = Map.empty, currentDisplay = [],
      historyDisplay = [], calculationHistoryList = ([], [])\<rparr>"

subsection \<open>Sequences of events\<close>

text \<open>
  \<open>press ds\<close> is one click on a number button for each character of \<open>ds\<close>, and
  \<open>add_all\<close> a sequence of calls of \<open>addToHistory\<close>, each going on in the state the call
  before left. \<open>new_entry\<close> is the object \<open>addToHistory\<close> puts in the log; \<open>as_entry\<close> and
  \<open>as_item\<close> are a log entry and its list item, from the two strings.
\<close>

definition press :: "string \<Rightarrow> action list" where
  "press ds = map (\<lambda>c. Digit [c]) ds"

fun add_all :: "(string \<times> calcval) list \<Rightarrow> state \<Rightarrow> state" where
  "add_all [] s = s"
| "add_all (x # xs) s = add_all xs (state_of (addToHistory (fst x) (snd x) s))"

definition new_entry :: "string \<times> calcval \<Rightarrow> jsval" where
  "new_entry x = entry (fst x) (String_of (snd x))"

definition as_entry :: "string \<times> string \<Rightarrow> jsval" where
  "as_entry x = entry (fst x) (snd x)"

definition as_item :: "string \<times> string \<Rightarrow> string" where
  "as_item x = item_html (fst x) (snd x)"

text \<open>Eleven calculations, to fill the log beyond its bound.\<close>

definition eleven :: "(string \<times> calcval) list" where
  "eleven = map (\<lambda>n. (''1 + 1 = 2'', Num (num n))) [1, 2, 3, 4, 5, 6, 7, 8, 9, 10, 11]"

text \<open>The digits typed, without the zeros in front.\<close>

definition strip_zeros :: "string \<Rightarrow> string" where
  "strip_zeros ds = dropWhile (\<lambda>c. c = CHR ''0'') ds"

text \<open>
  The events the properties range over: any button, a number button carrying one digit. The
  number of decimal points of an entry is \<open>dots\<close>. A state is \<open>shown\<close> when the two
  displays hold what \<open>updateDisplay\<close> writes.
\<close>

fun valid_action :: "action \<Rightarrow> bool" where
  "valid_action (Digit d) = (length d = 1 \<and> list_all is_digit d)"
| "valid_action a = True"

definition dots :: "string \<Rightarrow> nat" where
  "dots s = count_list s CHR ''.''"

definition shown :: "state \<Rightarrow> bool" where
  "shown s =
     (currentDisplay s = currentInput s \<and>
      historyDisplay s = String_of (previousInput s)
          @ (case operator s of None \<Rightarrow> [] | Some opr \<Rightarrow> '' '' @ op_text opr))"

text \<open>
  A log is bounded when it is an array of at most 10 elements, and a log of entries when
  each element is an object as \<open>addToHistory\<close> makes them.
\<close>

definition bounded_log :: "state \<Rightarrow> bool" where
  "bounded_log s = (case history s of JArr h \<Rightarrow> length h \<le> 10 | _ \<Rightarrow> False)"

definition entry_log :: "state \<Rightarrow> bool" where
  "entry_log s = (\<exists>es. history s = JArr (map as_entry es))"

text \<open>The text \<open>saveHistory\<close> stores for a log of one entry.\<close>

definition one_entry :: string where
  "one_entry = JSON_stringify (JArr [entry ''5 + 3 = 8'' ''8''])"

section \<open>Auxiliary facts\<close>

subsection \<open>Values of the model\<close>

text \<open>
  Closed facts, each a computation: some numbers as a JavaScript engine prints them, the
  values the scenarios need, and three texts put to \<open>JSON.parse\<close>.
\<close>

lemma number_examples:
  "Number_toString (dadd (parseFloat ''0.1'') (parseFloat ''0.2'')) = ''0.30000000000000004'' \<and>
   Number_toString (ddiv (num 1) (num 3)) = ''0.3333333333333333'' \<and>
   Number_toString (parseFloat ''1e21'') = ''1e+21'' \<and>
   Number_toString (parseFloat ''123456789012345678901'') = ''123456789012345680000'' \<and>
   Number_toString (parseFloat ''0.0000001'') = ''1e-7'' \<and>
   Number_toString (dmul (num 0) (num (- 5))) = ''0'' \<and>
   Number_toString (ddiv (num 1) (parseFloat ''-0'')) = ''-Infinity'' \<and>
   Number_toString (parseFloat ''Error'') = ''NaN'' \<and>
   Number_toString (parseFloat '' 12.5e1x'') = ''125''"
  by code_simp

lemma num_0: "num 0 = Finite False 0 (- 1074)"
  by (simp add: num_def to_double_def)

lemma eight_by_two: "ddiv (num 8) (num 2) = num 4"
  by code_simp

lemma two_not_zero: "\<not> strict_eq (num 2) (num 0)"
  by code_simp

lemma five_percent: "Number_toString (ddiv (parseFloat ''5'') (num 100)) = ''0.05''"
  by code_simp

lemma five_negated: "Number_toString (dmul (parseFloat ''5'') (num (- 1))) = ''-5''"
  by code_simp

lemma five_plus_three:
  "performCalculation Add (parseFloat (String_of (Num (parseFloat ''5'')))) (parseFloat ''3'')
     = Num (num 8) \<and>
   String_of (Num (num 8)) = ''8'' \<and>
   expression_text (Num (parseFloat ''5'')) Add ''3'' (Num (num 8)) = ''5 + 3 = 8''"
  by code_simp

lemma JSON_parse_empty_array: "JSON_parse ''[]'' = Inr (JArr [])"
  by (simp add: JSON_parse_def tokenize.simps json_ws_def next_token_def)

lemma JSON_parse_brace: "JSON_parse ''{'' = Inl SyntaxError"
  by (simp add: JSON_parse_def tokenize.simps json_ws_def next_token_def)

lemma JSON_parse_error: "JSON_parse stored = Inl e \<Longrightarrow> e = SyntaxError"
  by (simp add: JSON_parse_def split: option.splits)

lemma one_entry_parsed:
  "one_entry \<noteq> [] \<and> JSON_parse one_entry = Inr (JArr (map as_entry [(''5 + 3 = 8'', ''8'')]))"
  by code_simp

lemma eleven_entries:
  "length eleven = 11 \<and>
   rev (map new_entry (tl eleven)) =
     map (entry ''1 + 1 = 2'') [''11'', ''10'', ''9'', ''8'', ''7'', ''6'', ''5'', ''4'', ''3'', ''2'']"
  by code_simp

subsection \<open>What the history functions leave alone\<close>

text \<open>Rendering the history list touches nothing but the list element.\<close>

lemma renderHistory_frame:
  "currentInput (state_of (renderHistory s)) = currentInput s"
  "operator (state_of (renderHistory s)) = operator s"
  "previousInput (state_of (renderHistory s)) = previousInput s"
  "history (state_of (renderHistory s)) = history s"
  "waitingForSecondOperand (state_of (renderHistory s)) = waitingForSecondOperand s"
  "localStorage (state_of (renderHistory s)) = localStorage s"
  "currentDisplay (state_of (renderHistory s)) = currentDisplay s"
  "historyDisplay (state_of (renderHistory s)) = historyDisplay s"
  by (simp_all add: renderHistory_def Let_def split: jsval.splits option.splits prod.splits)

lemma saveHistory_frame:
  "currentInput (saveHistory s) = currentInput s"
  "operator (saveHistory s) = operator s"
  "previousInput (saveHistory s) = previousInput s"
  "history (saveHistory s) = history s"
  "waitingForSecondOperand (saveHistory s) = waitingForSecondOperand s"
  "currentDisplay (saveHistory s) = currentDisplay s"
  "historyDisplay (saveHistory s) = historyDisplay s"
  by (simp_all add: saveHistory_def)

lemma loadHistory_frame:
  "currentInput (state_of (loadHistory s)) = currentInput s"
  "operator (state_of (loadHistory s)) = operator s"
  "previousInput (state_of (loadHistory s)) = previousInput s"
  "waitingForSecondOperand (state_of (loadHistory s)) = waitingForSecondOperand s"
  "currentDisplay (state_of (loadHistory s)) = currentDisplay s"
  "historyDisplay (state_of (loadHistory s)) = historyDisplay s"
  by (simp_all add: loadHistory_def renderHistory_frame split: option.splits sum.splits)

lemma addToHistory_frame:
  "currentInput (state_of (addToHistory e r s)) = currentInput s"
  "operator (state_of (addToHistory e r s)) = operator s"
  "previousInput (state_of (addToHistory e r s)) = previousInput s"
  "waitingForSecondOperand (state_of (addToHistory e r s)) = waitingForSecondOperand s"
  "currentDisplay (state_of (addToHistory e r s)) = currentDisplay s"
  "historyDisplay (state_of (addToHistory e r s)) = historyDisplay s"
  by (simp_all add: addToHistory_def renderHistory_frame saveHistory_frame split: jsval.splits)

text \<open>
  When \<open>addToHistory\<close> has returned or thrown, the entry, the operator, the pending operand,
  the flag and the displays are those of before.
\<close>

lemma addToHistory_result:
  assumes "addToHistory e c s = Done s' \<or> addToHistory e c s = Thrown x s'"
  shows "currentInput s' = currentInput s" and "operator s' = operator s"
    and "previousInput s' = previousInput s"
    and "waitingForSecondOperand s' = waitingForSecondOperand s"
    and "currentDisplay s' = currentDisplay s" and "historyDisplay s' = historyDisplay s"
    and "history s' = history (state_of (addToHistory e c s))"
proof -
  from assms have "s' = state_of (addToHistory e c s)" by auto
  then show "currentInput s' = currentInput s" and "operator s' = operator s"
    and "previousInput s' = previousInput s"
    and "waitingForSecondOperand s' = waitingForSecondOperand s"
    and "currentDisplay s' = currentDisplay s" and "historyDisplay s' = historyDisplay s"
    and "history s' = history (state_of (addToHistory e c s))"
    by (simp_all add: addToHistory_frame)
qed

lemma clearAllHistory_frame:
  "currentInput (state_of (clearAllHistory s)) = currentInput s"
  "operator (state_of (clearAllHistory s)) = operator s"
  "previousInput (state_of (clearAllHistory s)) = previousInput s"
  "waitingForSecondOperand (state_of (clearAllHistory s)) = waitingForSecondOperand s"
  "currentDisplay (state_of (clearAllHistory s)) = currentDisplay s"
  "historyDisplay (state_of (clearAllHistory s)) = historyDisplay s"
  by (simp_all add: clearAllHistory_def renderHistory_frame saveHistory_frame)

lemma startup_engine:
  "currentInput (state_of (startup p)) = ''0''"
  "operator (state_of (startup p)) = None"
  "previousInput (state_of (startup p)) = Str []"
  "waitingForSecondOperand (state_of (startup p)) = False"
proof -
  have "currentInput (state_of (loadHistory (initial p))) = ''0''"
    "operator (state_of (loadHistory (initial p))) = None"
    "previousInput (state_of (loadHistory (initial p))) = Str []"
    "waitingForSecondOperand (state_of (loadHistory (initial p))) = False"
    by (simp_all add: loadHistory_frame initial_def)
  then show "currentInput (state_of (startup p)) = ''0''"
    "operator (state_of (startup p)) = None"
    "previousInput (state_of (startup p)) = Str []"
    "waitingForSecondOperand (state_of (startup p)) = False"
    by (cases "loadHistory (initial p)"; simp add: startup_def updateDisplay_def)+
qed

lemma blank_start_history: "history (state_of (startup blank_page)) = JArr []"
  by (simp add: startup_def initial_def loadHistory_def blank_page_def updateDisplay_def)

subsection \<open>The ways through the handlers\<close>

lemma handleOperator_replace:
  "operator s = Some opr \<Longrightarrow> waitingForSecondOperand s \<Longrightarrow>
   handleOperator nextOperator s =
     Done (s\<lparr>operator := Some nextOperator,
             historyDisplay := String_of (previousInput s) @ '' '' @ op_text nextOperator\<rparr>)"
  by (simp add: handleOperator_def)

lemma handleOperator_first:
  "operator s = None \<Longrightarrow> previousInput s = Str [] \<Longrightarrow>
   handleOperator nextOperator s =
     Done (updateDisplay (s\<lparr>previousInput := Num (parseFloat (currentInput s)),
             waitingForSecondOperand := True, operator := Some nextOperator\<rparr>))"
  by (simp add: handleOperator_def)

lemma double_press:
  assumes "operator s = None" and "previousInput s = Str []"
  shows "run [Operator a, Operator a] s = run [Operator a] s"
proof -
  let ?t = "updateDisplay (s\<lparr>previousInput := Num (parseFloat (currentInput s)),
             waitingForSecondOperand := True, operator := Some a\<rparr>)"
  have t: "handleOperator a s = Done ?t"
    using assms by (rule handleOperator_first)
  have "handleOperator a ?t = Done (?t\<lparr>operator := Some a,
      historyDisplay := String_of (previousInput ?t) @ '' '' @ op_text a\<rparr>)"
    by (rule handleOperator_replace [where opr = a]) (simp_all add: updateDisplay_def)
  also have "?t\<lparr>operator := Some a,
      historyDisplay := String_of (previousInput ?t) @ '' '' @ op_text a\<rparr> = ?t"
    by (simp add: updateDisplay_def)
  finally show ?thesis using t by simp
qed

lemma handleOperator_cases:
  obtains
    (replace) "handleOperator a s =
        Done (s\<lparr>operator := Some a,
                historyDisplay := String_of (previousInput s) @ '' '' @ op_text a\<rparr>)"
  | (first) "handleOperator a s =
        Done (updateDisplay (s\<lparr>previousInput := Num (parseFloat (currentInput s)),
                waitingForSecondOperand := True, operator := Some a\<rparr>))"
  | (idle) "handleOperator a s =
        Done (updateDisplay (s\<lparr>waitingForSecondOperand := True, operator := Some a\<rparr>))"
  | (chain) e opr x y s' where "addToHistory e (performCalculation opr x y) s = Done s'"
      "handleOperator a s =
        Done (updateDisplay
          (s'\<lparr>currentInput := String_of (performCalculation opr x y),
              previousInput := performCalculation opr x y,
              waitingForSecondOperand := True, operator := Some a\<rparr>))"
  | (thrown) e c x s' where "addToHistory e c s = Thrown x s'" "handleOperator a s = Thrown x s'"
proof (cases "operator s \<noteq> None \<and> waitingForSecondOperand s")
  case True
  then have "handleOperator a s =
      Done (s\<lparr>operator := Some a,
              historyDisplay := String_of (previousInput s) @ '' '' @ op_text a\<rparr>)"
    by (simp add: handleOperator_def)
  then show ?thesis by (rule replace)
next
  case nb: False
  show ?thesis
  proof (cases "previousInput s = Str []")
    case True
    with nb have "handleOperator a s =
        Done (updateDisplay (s\<lparr>previousInput := Num (parseFloat (currentInput s)),
                waitingForSecondOperand := True, operator := Some a\<rparr>))"
      by (auto simp: handleOperator_def Let_def)
    then show ?thesis by (rule first)
  next
    case np: False
    show ?thesis
    proof (cases "operator s")
      case None
      with np have "handleOperator a s =
          Done (updateDisplay (s\<lparr>waitingForSecondOperand := True, operator := Some a\<rparr>))"
        by (auto simp: handleOperator_def Let_def)
      then show ?thesis by (rule idle)
    next
      case (Some opr)
      let ?x = "parseFloat (String_of (previousInput s))" and ?y = "parseFloat (currentInput s)"
      let ?e = "expression_text (previousInput s) opr (currentInput s) (performCalculation opr ?x ?y)"
      show ?thesis
      proof (cases "addToHistory ?e (performCalculation opr ?x ?y) s")
        case (Done s')
        with Some np nb have "handleOperator a s =
            Done (updateDisplay
              (s'\<lparr>currentInput := String_of (performCalculation opr ?x ?y),
                  previousInput := performCalculation opr ?x ?y,
                  waitingForSecondOperand := True, operator := Some a\<rparr>))"
          by (auto simp: handleOperator_def Let_def)
        with Done show ?thesis by (rule chain)
      next
        case (Thrown x s')
        with Some np nb have "handleOperator a s = Thrown x s'"
          by (auto simp: handleOperator_def Let_def)
        with Thrown show ?thesis by (rule thrown)
      qed
    qed
  qed
qed

lemma calculateResult_cases:
  obtains
    (unchanged) "calculateResult s = Done s"
  | (evaluated) e opr x y s' where "addToHistory e (performCalculation opr x y) s = Done s'"
      "calculateResult s =
        Done (updateDisplay
          (s'\<lparr>currentInput := String_of (performCalculation opr x y), operator := None,
              previousInput := Str [], waitingForSecondOperand := False\<rparr>))"
  | (thrown) e c x s' where "addToHistory e c s = Thrown x s'" "calculateResult s = Thrown x s'"
proof (cases "operator s")
  case None
  then have "calculateResult s = Done s"
    by (simp add: calculateResult_def)
  then show ?thesis by (rule unchanged)
next
  case (Some opr)
  show ?thesis
  proof (cases "waitingForSecondOperand s")
    case True
    with Some have "calculateResult s = Done s"
      by (simp add: calculateResult_def)
    then show ?thesis by (rule unchanged)
  next
    case False
    let ?x = "parseFloat (String_of (previousInput s))" and ?y = "parseFloat (currentInput s)"
    let ?e = "expression_text (previousInput s) opr (currentInput s) (performCalculation opr ?x ?y)"
    show ?thesis
    proof (cases "addToHistory ?e (performCalculation opr ?x ?y) s")
      case (Done s')
      with Some False have "calculateResult s =
          Done (updateDisplay
            (s'\<lparr>currentInput := String_of (performCalculation opr ?x ?y), operator := None,
                previousInput := Str [], waitingForSecondOperand := False\<rparr>))"
        by (simp add: calculateResult_def Let_def)
      with Done show ?thesis by (rule evaluated)
    next
      case (Thrown x s')
      with Some False have "calculateResult s = Thrown x s'"
        by (simp add: calculateResult_def Let_def)
      with Thrown show ?thesis by (rule thrown)
    qed
  qed
qed

lemma run_snoc: "run (as @ [a]) s = state_of (click a (run as s))"
  by (induction as arbitrary: s) simp_all

lemma before_equals:
  "run [Digit ''5'', Operator Add, Digit ''3''] (state_of (startup p)) = t \<Longrightarrow>
   operator t = Some Add \<and> \<not> waitingForSecondOperand t \<and> currentInput t = ''3'' \<and>
   previousInput t = Num (parseFloat ''5'') \<and> history t = history (state_of (startup p))"
  by (auto simp add: appendNumber_def handleOperator_def updateDisplay_def startup_engine Let_def)

subsection \<open>Digits\<close>

lemma press_append:
  assumes "\<not> waitingForSecondOperand s" and "currentInput s \<noteq> []" and "currentInput s \<noteq> ''0''"
  shows "currentInput (run (press ds) s) = currentInput s @ ds"
  using assms
proof (induction ds arbitrary: s)
  case Nil
  then show ?case by (simp add: press_def)
next
  case (Cons c ds)
  let ?t = "appendNumber [c] s"
  from Cons.prems have t: "currentInput ?t = currentInput s @ [c]" "\<not> waitingForSecondOperand ?t"
    by (simp_all add: appendNumber_def updateDisplay_def)
  from Cons.prems(2) t(1) have "currentInput ?t \<noteq> []" "currentInput ?t \<noteq> ''0''"
    by (cases "currentInput s"; simp)+
  from Cons.IH [OF t(2) this] t(1) show ?case
    by (simp add: press_def)
qed

lemma press_from_zero:
  assumes "\<not> waitingForSecondOperand s" and "currentInput s = ''0''"
  shows "currentInput (run (press ds) s) = (if strip_zeros ds = [] then ''0'' else strip_zeros ds)"
  using assms
proof (induction ds arbitrary: s)
  case Nil
  then show ?case by (simp add: press_def strip_zeros_def)
next
  case (Cons c ds)
  let ?t = "appendNumber [c] s"
  from Cons.prems have t: "currentInput ?t = [c]" "\<not> waitingForSecondOperand ?t"
    by (simp_all add: appendNumber_def updateDisplay_def)
  show ?case
  proof (cases "c = CHR ''0''")
    case True
    with Cons.IH [OF t(2)] t(1) show ?thesis
      by (simp add: press_def strip_zeros_def)
  next
    case False
    with t(1) have "currentInput ?t \<noteq> []" "currentInput ?t \<noteq> ''0''"
      by simp_all
    from press_append [OF t(2) this, of ds] t(1) False show ?thesis
      by (simp add: press_def strip_zeros_def)
  qed
qed

subsection \<open>The log\<close>

lemma capped_take: "length xs \<le> 11 \<Longrightarrow> capped xs = take 10 xs"
  by (cases "length xs = 11") (simp_all add: capped_def butlast_conv_take)

lemma take_append_take: "take n (xs @ take n ys) = take n (xs @ ys)"
  by (simp add: min_def)

lemma capped_not_empty: "capped (x # xs) \<noteq> []"
  by (cases xs) (auto simp: capped_def)

lemma capped_map: "capped (map f xs) = map f (capped xs)"
  by (simp add: capped_def map_butlast)

lemma addToHistory_history:
  "history s = JArr h \<Longrightarrow>
   history (state_of (addToHistory e r s)) = JArr (capped (entry e (String_of r) # h))"
  by (simp add: addToHistory_def renderHistory_frame saveHistory_frame)

lemma add_all_history:
  "history s = JArr h \<Longrightarrow> length h \<le> 10 \<Longrightarrow>
   history (add_all es s) = JArr (take 10 (rev (map new_entry es) @ h))"
proof (induction es arbitrary: s h)
  case Nil
  then show ?case by simp
next
  case (Cons x es)
  let ?h = "take 10 (new_entry x # h)"
  from Cons.prems have "history (state_of (addToHistory (fst x) (snd x) s)) = JArr ?h"
    by (simp add: addToHistory_history capped_take new_entry_def)
  from Cons.IH [OF this] have
    "history (add_all (x # es) s) = JArr (take 10 (rev (map new_entry es) @ ?h))"
    by simp
  also have "take 10 (rev (map new_entry es) @ ?h) = take 10 (rev (map new_entry (x # es)) @ h)"
    using take_append_take [of 10 "rev (map new_entry es)" "new_entry x # h"] by simp
  finally show ?case .
qed

lemma render_item_entry: "render_item (entry e r) = Inr (item_html e r)"
  by (simp add: render_item_def entry_def)

lemma render_items_entries:
  "render_items (map as_entry es) lis = (lis @ map as_item es, None)"
  by (induction es arbitrary: lis) (simp_all add: render_item_entry as_entry_def as_item_def)

lemma renderHistory_entries:
  "history s = JArr (map as_entry es) \<Longrightarrow> es \<noteq> [] \<Longrightarrow>
   renderHistory s = Done (s\<lparr>calculationHistoryList := ([], map as_item es)\<rparr>)"
  by (simp add: renderHistory_def render_items_entries)

lemma renderHistory_log:
  "history s = JArr (map as_entry es) \<Longrightarrow>
   renderHistory s =
     Done (s\<lparr>calculationHistoryList :=
              (if es = [] then (placeholder, []) else ([], map as_item es))\<rparr>)"
  by (cases "es = []") (simp_all add: renderHistory_entries, simp add: renderHistory_def)

lemma addToHistory_entries:
  assumes "history s = JArr (map as_entry es)"
  shows "addToHistory e r s =
     Done (s\<lparr>history := JArr (map as_entry (capped ((e, String_of r) # es))),
             localStorage := (localStorage s)(''calculatorHistory'' \<mapsto>
               JSON_stringify (JArr (map as_entry (capped ((e, String_of r) # es))))),
             calculationHistoryList := ([], map as_item (capped ((e, String_of r) # es)))\<rparr>)"
proof -
  let ?es = "capped ((e, String_of r) # es)"
  have c: "capped (entry e (String_of r) # map as_entry es) = map as_entry ?es"
    using capped_map [of as_entry "(e, String_of r) # es"] by (simp add: as_entry_def)
  let ?t = "saveHistory (s\<lparr>history := JArr (map as_entry ?es)\<rparr>)"
  have "history ?t = JArr (map as_entry ?es)"
    by (simp add: saveHistory_def)
  from renderHistory_entries [OF this capped_not_empty] assms c show ?thesis
    by (simp add: addToHistory_def saveHistory_def)
qed

lemma calculateResult_entries:
  assumes "operator s = Some opr" and "\<not> waitingForSecondOperand s"
    and "history s = JArr (map as_entry es)"
    and "c = performCalculation opr (parseFloat (String_of (previousInput s)))
               (parseFloat (currentInput s))"
    and "es' = capped ((expression_text (previousInput s) opr (currentInput s) c, String_of c) # es)"
  shows "calculateResult s =
     Done (updateDisplay
       (s\<lparr>history := JArr (map as_entry es'),
           localStorage := (localStorage s)(''calculatorHistory'' \<mapsto>
             JSON_stringify (JArr (map as_entry es'))),
           calculationHistoryList := ([], map as_item es'),
           currentInput := String_of c, operator := None, previousInput := Str [],
           waitingForSecondOperand := False\<rparr>))"
  using assms(1,2,4,5) addToHistory_entries [OF assms(3)]
  by (simp add: calculateResult_def Let_def)

lemma five_plus_three_equals:
  assumes "history (state_of (startup p)) = JArr (map as_entry es)"
  shows "currentInput (run [Digit ''5'', Operator Add, Digit ''3'', Equals] (state_of (startup p))) = ''8'' \<and>
     history (run [Digit ''5'', Operator Add, Digit ''3'', Equals] (state_of (startup p))) =
       JArr (map as_entry (capped ((''5 + 3 = 8'', ''8'') # es)))"
proof -
  let ?t = "run [Digit ''5'', Operator Add, Digit ''3''] (state_of (startup p))"
  have t: "operator ?t = Some Add" "\<not> waitingForSecondOperand ?t" "currentInput ?t = ''3''"
    "previousInput ?t = Num (parseFloat ''5'')" "history ?t = JArr (map as_entry es)"
    using before_equals [OF refl, of p] assms by simp_all
  have c: "performCalculation Add (parseFloat (String_of (previousInput ?t)))
      (parseFloat (currentInput ?t)) = Num (num 8)"
    using t five_plus_three by simp
  have e: "capped ((expression_text (previousInput ?t) Add (currentInput ?t) (Num (num 8)),
      String_of (Num (num 8))) # es) = capped ((''5 + 3 = 8'', ''8'') # es)"
    using t five_plus_three by simp
  have "run [Digit ''5'', Operator Add, Digit ''3'', Equals] (state_of (startup p)) =
      state_of (calculateResult ?t)"
    using run_snoc [of "[Digit ''5'', Operator Add, Digit ''3'']" Equals "state_of (startup p)"]
    by simp
  with calculateResult_entries [OF t(1) t(2) t(5) c [symmetric] e [symmetric]] five_plus_three
  show ?thesis
    by (simp add: updateDisplay_def)
qed

text \<open>
  The log has to be one of entries for this. On a store that holds the text \<open>[{}]\<close>, an
  array of an object without \<open>expression\<close>, drawing the list throws, at the start and again
  in \<open>calculateResult\<close>: \<open>5 + 3 =\<close> leaves the entry \<open>3\<close>.
\<close>

lemma equals_on_other_log:
  "currentInput (run [Digit ''5'', Operator Add, Digit ''3'', Equals]
     (state_of (startup (blank_page\<lparr>localStorage := [''calculatorHistory'' \<mapsto> ''[{}]'']\<rparr>)))) = ''3''"
  by code_simp

text \<open>
  A log of more than 10 elements, as a store written by other means can hold, is not cut down
  to 10: \<open>pop\<close> takes one element away.
\<close>

lemma addToHistory_long_log:
  "history s = JArr h \<Longrightarrow> 10 \<le> length h \<Longrightarrow>
   history (state_of (addToHistory e r s)) = JArr (entry e (String_of r) # butlast h)"
  by (cases h) (simp_all add: addToHistory_history capped_def)

text \<open>An event leaves the log as it is, or makes one call of \<open>addToHistory\<close>, or empties it.\<close>

lemma click_history:
  "history (state_of (click a s)) = history s \<or>
   (\<exists>e c. history (state_of (click a s)) = history (state_of (addToHistory e c s))) \<or>
   history (state_of (click a s)) = JArr []"
proof (cases a)
  case (Operator opr)
  show ?thesis
  proof (cases rule: handleOperator_cases [of opr s])
    case (chain e b x y s')
    with addToHistory_result(7) [of e "performCalculation b x y" s s']
    have "history (state_of (click a s)) =
        history (state_of (addToHistory e (performCalculation b x y) s))"
      using Operator by (simp add: updateDisplay_def)
    then show ?thesis by blast
  next
    case (thrown e c x s')
    with addToHistory_result(7) [of e c s s' x]
    have "history (state_of (click a s)) = history (state_of (addToHistory e c s))"
      using Operator by simp
    then show ?thesis by blast
  qed (simp_all add: Operator updateDisplay_def)
next
  case Equals
  show ?thesis
  proof (cases rule: calculateResult_cases [of s])
    case (evaluated e b x y s')
    with addToHistory_result(7) [of e "performCalculation b x y" s s']
    have "history (state_of (click a s)) =
        history (state_of (addToHistory e (performCalculation b x y) s))"
      using Equals by (simp add: updateDisplay_def)
    then show ?thesis by blast
  next
    case (thrown e c x s')
    with addToHistory_result(7) [of e c s s' x]
    have "history (state_of (click a s)) = history (state_of (addToHistory e c s))"
      using Equals by simp
    then show ?thesis by blast
  qed (simp_all add: Equals)
next
  case ClearHistory
  then show ?thesis
    by (simp add: clearAllHistory_def renderHistory_frame saveHistory_frame)
qed (simp_all add: appendNumber_def appendDecimal_def clearCalculator_def toggleNegative_def
       calculatePercentage_def updateDisplay_def)

lemma bounded_log_iff: "bounded_log s \<longleftrightarrow> (\<exists>h. history s = JArr h \<and> length h \<le> 10)"
  by (auto simp: bounded_log_def split: jsval.splits)

lemma click_bounded:
  assumes "bounded_log s"
  shows "bounded_log (state_of (click a s))"
proof -
  from assms obtain h where h: "history s = JArr h" "length h \<le> 10"
    by (auto simp: bounded_log_iff)
  have "bounded_log (state_of (addToHistory e c s))" for e c
    using h by (simp add: bounded_log_iff addToHistory_history capped_take)
  with click_history [of a s] assms show ?thesis
    by (auto simp: bounded_log_def)
qed

lemma run_bounded: "bounded_log s \<Longrightarrow> bounded_log (run as s)"
  by (induction as arbitrary: s) (simp_all add: click_bounded)

lemma entry_log_add:
  assumes "entry_log s"
  shows "entry_log (state_of (addToHistory e c s))"
proof -
  from assms obtain es where es: "history s = JArr (map as_entry es)"
    by (auto simp: entry_log_def)
  have "capped (entry e (String_of c) # map as_entry es) =
      map as_entry (capped ((e, String_of c) # es))"
    using capped_map [of as_entry "(e, String_of c) # es"] by (simp add: as_entry_def)
  with es have "history (state_of (addToHistory e c s)) =
      JArr (map as_entry (capped ((e, String_of c) # es)))"
    by (simp add: addToHistory_history)
  then show ?thesis
    unfolding entry_log_def by blast
qed

lemma click_entry_log:
  assumes "entry_log s"
  shows "entry_log (state_of (click a s))"
proof -
  have "entry_log t" if "history t = JArr []" for t
  proof -
    from that have "history t = JArr (map as_entry [])" by simp
    then show ?thesis unfolding entry_log_def by blast
  qed
  moreover have "entry_log t" if "history t = history s" for t
    using that assms by (simp add: entry_log_def)
  moreover have "entry_log t" if "history t = history (state_of (addToHistory e c s))" for t e c
    using that entry_log_add [OF assms, of e c] by (simp add: entry_log_def)
  ultimately show ?thesis
    using click_history [of a s] by blast
qed

lemma run_entry_log: "entry_log s \<Longrightarrow> entry_log (run as s)"
  by (induction as arbitrary: s) (simp_all add: click_entry_log)

subsection \<open>Decimal points\<close>

lemma dots_simps:
  "dots [] = 0" "dots (xs @ ys) = dots xs + dots ys"
  "dots (c # cs) = (if c = CHR ''.'' then Suc (dots cs) else dots cs)"
  by (simp_all add: dots_def)

lemma dots_0: "CHR ''.'' \<notin> set s \<Longrightarrow> dots s = 0"
  by (simp add: dots_def)

lemma digit_char_not_dot: "digit_char d \<noteq> CHR ''.''" "CHR ''.'' \<noteq> digit_char d"
  by (simp_all add: digit_char_def)

lemma dec_string_no_dot: "CHR ''.'' \<notin> set (dec_string n)"
proof (induction n rule: dec_string.induct)
  case (1 n)
  show ?case
  proof (cases "n < 10")
    case True
    then show ?thesis
      by (subst dec_string.simps) (simp add: digit_char_not_dot)
  next
    case False
    with "1.IH" show ?thesis
      by (subst dec_string.simps) (simp add: digit_char_not_dot)
  qed
qed

lemma format_number_dots:
  assumes "CHR ''.'' \<notin> set ds"
  shows "dots (format_number ds n) \<le> Suc 0"
proof -
  have t: "dots (take k ds) = 0" "dots (drop k ds) = 0" for k
    using assms by (auto intro!: dots_0 dest: in_set_takeD in_set_dropD)
  have r: "dots (replicate k CHR ''0'') = 0" for k
    by (rule dots_0) simp
  have d: "dots ds = 0" "dots (dec_string x) = 0" for x
    using assms dec_string_no_dot by (simp_all add: dots_0)
  show ?thesis
    by (simp add: format_number_def Let_def dots_simps t r d)
qed

lemma pos_string_dots: "dots (pos_string m e) \<le> Suc 0"
proof -
  obtain a b where ab: "scale 2 m 1 e = (a, b)"
    by (cases "scale 2 m 1 e")
  let ?n = "floor_log 10 a b + 1"
  let ?r = "shortest m e ?n [1, 2, 3, 4, 5, 6, 7, 8, 9, 10, 11, 12, 13, 14, 15, 16, 17]"
  show ?thesis
  proof (cases ?r)
    case None
    obtain c d where "scale 10 a b (17 - ?n) = (c, d)"
      by (cases "scale 10 a b (17 - ?n)")
    with None ab show ?thesis
      by (simp add: pos_string_def Let_def format_number_dots dec_string_no_dot
            del: shortest.simps)
  next
    case (Some x)
    then show ?thesis
      using ab
      by (cases x)
         (simp add: pos_string_def Let_def format_number_dots dec_string_no_dot
            del: shortest.simps)
  qed
qed

lemma Number_toString_dots: "dots (Number_toString d) \<le> Suc 0"
proof (cases d)
  case (Finite s m e)
  then show ?thesis
    using pos_string_dots [of m e] by (simp add: dots_simps)
qed (simp_all add: dots_simps)

lemma String_of_result_dots: "dots (String_of (performCalculation opr a b)) \<le> Suc 0"
  by (cases opr) (simp_all add: Number_toString_dots dots_simps)

text \<open>An operator or the equals button leaves the entry, or makes it the string of a result.\<close>

lemma handleOperator_dots:
  assumes "dots (currentInput s) \<le> Suc 0"
  shows "dots (currentInput (state_of (handleOperator a s))) \<le> Suc 0"
proof (cases rule: handleOperator_cases [of a s])
  case (chain e opr x y s')
  then show ?thesis
    by (simp add: updateDisplay_def String_of_result_dots)
next
  case (thrown e c x s')
  with assms addToHistory_result(1) [of e c s s' x] show ?thesis
    by simp
qed (use assms in \<open>simp_all add: updateDisplay_def\<close>)

lemma calculateResult_dots:
  assumes "dots (currentInput s) \<le> Suc 0"
  shows "dots (currentInput (state_of (calculateResult s))) \<le> Suc 0"
proof (cases rule: calculateResult_cases [of s])
  case (evaluated e opr x y s')
  then show ?thesis
    by (simp add: updateDisplay_def String_of_result_dots)
next
  case (thrown e c x s')
  with assms addToHistory_result(1) [of e c s s' x] show ?thesis
    by simp
qed (use assms in simp)

lemma digit_no_dot: "is_digit c \<Longrightarrow> c \<noteq> CHR ''.''"
  by (auto simp: is_digit_def)

lemma click_dots:
  assumes "valid_action a" and "dots (currentInput s) \<le> Suc 0"
  shows "dots (currentInput (state_of (click a s))) \<le> Suc 0"
proof (cases a)
  case (Digit d)
  with assms(1) obtain c where "d = [c]" "is_digit c"
    by (cases d) auto
  with digit_no_dot [of c] have "dots d = 0"
    by (simp add: dots_simps)
  with Digit assms(2) show ?thesis
    by (simp add: appendNumber_def updateDisplay_def dots_simps)
next
  case DecimalPoint
  with assms(2) show ?thesis
    by (simp add: appendDecimal_def updateDisplay_def dots_simps dots_0)
next
  case (Operator opr)
  with assms(2) show ?thesis
    by (simp add: handleOperator_dots)
next
  case Equals
  with assms(2) show ?thesis
    by (simp add: calculateResult_dots)
next
  case Clear
  then show ?thesis
    by (simp add: clearCalculator_def updateDisplay_def dots_simps)
next
  case Negate
  then show ?thesis
    by (simp add: toggleNegative_def updateDisplay_def Number_toString_dots)
next
  case Percent
  then show ?thesis
    by (simp add: calculatePercentage_def updateDisplay_def Number_toString_dots)
next
  case ClearHistory
  with assms(2) show ?thesis
    by (simp add: clearAllHistory_frame)
qed

lemma run_dots:
  "list_all valid_action as \<Longrightarrow> dots (currentInput s) \<le> Suc 0 \<Longrightarrow>
   dots (currentInput (run as s)) \<le> Suc 0"
  by (induction as arbitrary: s) (simp_all add: click_dots)

lemma appendDecimal_again:
  "CHR ''.'' \<in> set (currentInput s) \<Longrightarrow> \<not> waitingForSecondOperand s \<Longrightarrow>
   appendDecimal s = updateDisplay s"
  by (simp add: appendDecimal_def)

lemma after_operator:
  "currentInput (run [Digit ''1'', DecimalPoint, Digit ''5'', Operator Add] (state_of (startup blank_page))) = ''1.5'' \<and>
   waitingForSecondOperand (run [Digit ''1'', DecimalPoint, Digit ''5'', Operator Add] (state_of (startup blank_page)))"
  by (simp add: appendNumber_def appendDecimal_def handleOperator_def updateDisplay_def
        startup_engine Let_def)

subsection \<open>The displays\<close>

lemma shown_updateDisplay: "shown (updateDisplay s)"
  by (simp add: shown_def updateDisplay_def)

lemma updateDisplay_shown: "shown s \<Longrightarrow> updateDisplay s = s"
  by (simp add: shown_def updateDisplay_def)

lemma shown_frame:
  assumes "shown s"
    and "currentInput t = currentInput s" and "operator t = operator s"
    and "previousInput t = previousInput s"
    and "currentDisplay t = currentDisplay s" and "historyDisplay t = historyDisplay s"
  shows "shown t"
  using assms by (simp add: shown_def)

lemma handleOperator_shown:
  assumes "shown s"
  shows "shown (state_of (handleOperator a s))"
proof (cases rule: handleOperator_cases [of a s])
  case replace
  with assms show ?thesis by (simp add: shown_def)
next
  case (thrown e c x s')
  from assms have "shown s'"
    by (rule shown_frame) (use thrown(1) in \<open>simp_all add: addToHistory_result [of e c s s' x]\<close>)
  with thrown show ?thesis by simp
qed (simp_all add: shown_updateDisplay)

lemma calculateResult_shown:
  assumes "shown s"
  shows "shown (state_of (calculateResult s))"
proof (cases rule: calculateResult_cases [of s])
  case unchanged
  with assms show ?thesis by simp
next
  case (thrown e c x s')
  from assms have "shown s'"
    by (rule shown_frame) (use thrown(1) in \<open>simp_all add: addToHistory_result [of e c s s' x]\<close>)
  with thrown show ?thesis by simp
qed (simp_all add: shown_updateDisplay)

lemma click_shown:
  assumes "shown s"
  shows "shown (state_of (click a s))"
proof (cases a)
  case (Operator opr)
  with assms show ?thesis by (simp add: handleOperator_shown)
next
  case Equals
  with assms show ?thesis by (simp add: calculateResult_shown)
next
  case ClearHistory
  from assms have "shown (state_of (clearAllHistory s))"
    by (rule shown_frame) (simp_all add: clearAllHistory_frame)
  with ClearHistory show ?thesis by simp
qed (simp_all add: appendNumber_def appendDecimal_def clearCalculator_def toggleNegative_def
       calculatePercentage_def shown_updateDisplay)

lemma run_shown: "shown s \<Longrightarrow> shown (run as s)"
  by (induction as arbitrary: s) (simp_all add: click_shown)

section \<open>Properties\<close>

subsection \<open>The evaluator\<close>

text \<open>
  C2. Dividing by zero gives the string \<open>Error\<close>, for every first operand and for both
  zeros; the result is a value, nothing is thrown. For every other second operand, \<open>NaN\<close>
  and the infinities included, the result is the quotient. \<open>performCalculation\<close> is a function
  of the operator and the two operands alone: the state is neither an argument nor a result,
  so the same arguments give the same result and no variable, store or element changes.
\<close>

theorem evaluate_divide:
  "performCalculation Divide x (num 0) = Str ''Error'' \<and>
   performCalculation Divide x (dneg (num 0)) = Str ''Error'' \<and>
   (\<not> strict_eq b (num 0) \<longrightarrow> performCalculation Divide a b = Num (ddiv a b)) \<and>
   performCalculation Multiply a b = Num (dmul a b) \<and>
   performCalculation Add a b = Num (dadd a b) \<and>
   performCalculation Subtract a b = Num (dsub a b)"
  by (simp add: num_0)

theorem evaluate_divide_witness:
  "\<not> strict_eq (num 2) (num 0) \<and> performCalculation Divide (num 8) (num 2) = Num (num 4)"
  using evaluate_divide [of "num 1" "num 2" "num 8"] two_not_zero eight_by_two
  by simp

subsection \<open>Sign and percent\<close>

text \<open>
  C10. \<open>toggleNegative\<close> and \<open>calculatePercentage\<close> leave the operator, the pending
  operand, the flag, the history, the store and the history list as they are, and they
  never throw. Besides \<open>currentInput\<close> only the two displays are written.
\<close>

theorem negate_percent_frame:
  "operator (toggleNegative s) = operator s \<and>
   previousInput (toggleNegative s) = previousInput s \<and>
   waitingForSecondOperand (toggleNegative s) = waitingForSecondOperand s \<and>
   history (toggleNegative s) = history s \<and>
   localStorage (toggleNegative s) = localStorage s \<and>
   calculationHistoryList (toggleNegative s) = calculationHistoryList s \<and>
   operator (calculatePercentage s) = operator s \<and>
   previousInput (calculatePercentage s) = previousInput s \<and>
   waitingForSecondOperand (calculatePercentage s) = waitingForSecondOperand s \<and>
   history (calculatePercentage s) = history s \<and>
   localStorage (calculatePercentage s) = localStorage s \<and>
   calculationHistoryList (calculatePercentage s) = calculationHistoryList s \<and>
   click Negate s = Done (toggleNegative s) \<and>
   click Percent s = Done (calculatePercentage s)"
  by (simp add: toggleNegative_def calculatePercentage_def updateDisplay_def)

text \<open>
  C8. After \<open>5\<close> and the percent button the entry is \<open>0.05\<close>, after \<open>5\<close> and the sign
  button it is \<open>-5\<close>, whatever the page was at the start. In general the percent button sets
  the entry to the string of its number divided by 100, the sign button to the string of its
  number times \<open>-1\<close>.
\<close>

theorem percent_and_negate:
  "currentInput (run [Digit ''5'', Percent] (state_of (startup p))) = ''0.05'' \<and>
   currentInput (run [Digit ''5'', Negate] (state_of (startup p))) = ''-5'' \<and>
   currentInput (calculatePercentage s) =
     Number_toString (ddiv (parseFloat (currentInput s)) (num 100)) \<and>
   currentInput (toggleNegative s) =
     Number_toString (dmul (parseFloat (currentInput s)) (num (- 1)))"
  by (simp add: startup_engine appendNumber_def calculatePercentage_def toggleNegative_def
        updateDisplay_def five_percent five_negated)

subsection \<open>Clearing the history\<close>

text \<open>
  C9. \<open>clearAllHistory\<close> empties the log and writes \<open>[]\<close> to the store, in every state;
  \<open>loadHistory\<close> on that store returns with the empty log, and so does a new start of the
  page.
\<close>

theorem clear_then_load:
  "clearAllHistory s =
     Done (s\<lparr>history := JArr [],
             localStorage := (localStorage s)(''calculatorHistory'' \<mapsto> ''[]''),
             calculationHistoryList := (placeholder, [])\<rparr>) \<and>
   loadHistory (state_of (clearAllHistory s)) = Done (state_of (clearAllHistory s)) \<and>
   history (state_of (loadHistory (state_of (clearAllHistory s)))) = JArr [] \<and>
   history (state_of (startup (state_of (clearAllHistory s)))) = JArr []"
  by (simp add: clearAllHistory_def saveHistory_def renderHistory_def loadHistory_def
        startup_def initial_def JSON_parse_empty_array updateDisplay_def)

subsection \<open>Typing digits\<close>

text \<open>
  C7. From the state the start of the page leaves, one click for each digit of \<open>ds\<close> gives
  the entry \<open>ds\<close> without its leading zeros, and \<open>0\<close> when nothing else was typed. The
  statement holds for every one-character button text, so for the ten digits.
\<close>

theorem digits_concatenate:
  "currentInput (run (press ds) (state_of (startup p))) =
     (if strip_zeros ds = [] then ''0'' else strip_zeros ds)"
  by (rule press_from_zero) (simp_all add: startup_engine)

subsection \<open>The length of the history\<close>

text \<open>
  C3. On a log of at most 10 entries, and the log is empty at the start, every call of
  \<open>addToHistory\<close> puts the new entry in front and keeps the first 10: the oldest entry goes
  when there would be 11. After any sequence of calls the log is the entries added, the latest
  first, followed by the old ones, cut at 10. After 11 calls on the empty log it is the
  entries 11, 10, ..., 2: the one added last is in front and the one added first has no
  place in it. The log changes so even when drawing the list throws afterwards. And after
  any sequence of clicks the log is still an array of at most 10 elements.
\<close>

theorem history_capped:
  "history s = JArr h \<Longrightarrow> length h \<le> 10 \<Longrightarrow>
     history (state_of (addToHistory e r s)) = JArr (take 10 (entry e (String_of r) # h)) \<and>
     history (add_all es s) = JArr (take 10 (rev (map new_entry es) @ h)) \<and>
     length (take 10 (rev (map new_entry es) @ h)) \<le> 10 \<and>
     (h = [] \<and> length es = 11 \<longrightarrow>
        history (add_all es s) = JArr (rev (map new_entry (tl es)))) \<and>
     bounded_log (run as s)"
proof (intro conjI impI)
  assume h: "history s = JArr h" "length h \<le> 10"
  then show "history (state_of (addToHistory e r s)) = JArr (take 10 (entry e (String_of r) # h))"
    by (simp add: addToHistory_history capped_take)
  from h show a: "history (add_all es s) = JArr (take 10 (rev (map new_entry es) @ h))"
    by (rule add_all_history)
  show "length (take 10 (rev (map new_entry es) @ h)) \<le> 10"
    by simp
  from h have "bounded_log s"
    by (simp add: bounded_log_iff)
  then show "bounded_log (run as s)"
    by (rule run_bounded)
  assume "h = [] \<and> length es = 11"
  then obtain x xs where "es = x # xs" "length xs = 10" "h = []"
    by (cases es) auto
  with a show "history (add_all es s) = JArr (rev (map new_entry (tl es)))"
    by simp
qed

theorem history_capped_witness:
  "history (state_of (startup blank_page)) = JArr [] \<and> length ([] :: jsval list) \<le> 10 \<and>
   history (add_all eleven (state_of (startup blank_page))) =
     JArr (map (entry ''1 + 1 = 2'')
       [''11'', ''10'', ''9'', ''8'', ''7'', ''6'', ''5'', ''4'', ''3'', ''2'']) \<and>
   bounded_log (run [Digit ''5'', Operator Add, Digit ''3'', Equals] (state_of (startup blank_page)))"
proof -
  have "length ([] :: jsval list) \<le> 10" by simp
  note hc = history_capped [OF blank_start_history this, of "''1''" "Num (num 1)" eleven
      "[Digit ''5'', Operator Add, Digit ''3'', Equals]"]
  from hc have "history (add_all eleven (state_of (startup blank_page))) =
      JArr (rev (map new_entry (tl eleven)))"
    using eleven_entries by blast
  moreover from hc have "bounded_log
      (run [Digit ''5'', Operator Add, Digit ''3'', Equals] (state_of (startup blank_page)))"
    by blast
  ultimately show ?thesis
    using blank_start_history eleven_entries by simp
qed

subsection \<open>An operator pressed twice\<close>

text \<open>
  C4. With an operator selected and the flag set, \<open>handleOperator\<close> returns at once: the
  state is the old one with the new operator, and the history display shows it. Nothing is
  calculated, the log, the store, the entry and the pending operand stay. So \<open>5 + + 3 =\<close>
  ends in the same state as \<open>5 + 3 =\<close>, whatever the page was at the start.
\<close>

theorem operator_replaced:
  "operator s = Some opr \<Longrightarrow> waitingForSecondOperand s \<Longrightarrow>
     handleOperator nextOperator s =
       Done (s\<lparr>operator := Some nextOperator,
               historyDisplay := String_of (previousInput s) @ '' '' @ op_text nextOperator\<rparr>) \<and>
     run [Digit ''5'', Operator Add, Operator Add, Digit ''3'', Equals] (state_of (startup p)) =
       run [Digit ''5'', Operator Add, Digit ''3'', Equals] (state_of (startup p))"
proof (intro conjI)
  assume "operator s = Some opr" "waitingForSecondOperand s"
  then show "handleOperator nextOperator s =
       Done (s\<lparr>operator := Some nextOperator,
               historyDisplay := String_of (previousInput s) @ '' '' @ op_text nextOperator\<rparr>)"
    by (rule handleOperator_replace)
next
  let ?s = "run [Digit ''5''] (state_of (startup p))"
  have "operator ?s = None" "previousInput ?s = Str []"
    by (simp_all add: appendNumber_def updateDisplay_def startup_engine)
  then have "run [Operator Add, Operator Add] ?s = run [Operator Add] ?s"
    by (rule double_press)
  then have "run [Digit ''3'', Equals] (run [Operator Add, Operator Add] ?s) =
      run [Digit ''3'', Equals] (run [Operator Add] ?s)"
    by simp
  then show "run [Digit ''5'', Operator Add, Operator Add, Digit ''3'', Equals] (state_of (startup p)) =
       run [Digit ''5'', Operator Add, Digit ''3'', Equals] (state_of (startup p))"
    by simp
qed

theorem operator_replaced_witness:
  "operator (run [Digit ''5'', Operator Add] (state_of (startup blank_page))) = Some Add \<and>
   waitingForSecondOperand (run [Digit ''5'', Operator Add] (state_of (startup blank_page))) \<and>
   handleOperator Multiply (run [Digit ''5'', Operator Add] (state_of (startup blank_page))) =
     Done ((run [Digit ''5'', Operator Add] (state_of (startup blank_page)))
       \<lparr>operator := Some Multiply,
        historyDisplay :=
          String_of (previousInput (run [Digit ''5'', Operator Add] (state_of (startup blank_page))))
            @ '' '' @ op_text Multiply\<rparr>)"
proof -
  let ?t = "run [Digit ''5'', Operator Add] (state_of (startup blank_page))"
  have t: "operator ?t = Some Add" "waitingForSecondOperand ?t"
    by (simp_all add: appendNumber_def handleOperator_def updateDisplay_def startup_engine Let_def)
  from operator_replaced [OF t, of Multiply blank_page] t show ?thesis
    by simp
qed

subsection \<open>Equals\<close>

text \<open>
  C5. \<open>calculateResult\<close> returns the state unchanged when no operator is selected or the
  flag is still set. Otherwise, on a log of entries, it evaluates the operator on the pending
  operand read as a number and the entry read as a number, adds the expression
  \<open>pending operator entry = result\<close> with the result to the log, stores and draws the log,
  makes the result the entry and resets operator, pending operand and flag. After
  \<open>5 + 3 =\<close> the entry is \<open>8\<close> and the new first entry of the log is \<open>5 + 3 = 8\<close> with
  result \<open>8\<close>. A log of entries stays one under every sequence of clicks.
\<close>

theorem equals_behaviour:
  "(operator s = None \<or> waitingForSecondOperand s \<longrightarrow> calculateResult s = Done s) \<and>
   (operator s = Some opr \<and> \<not> waitingForSecondOperand s \<and> history s = JArr (map as_entry es) \<and>
    c = performCalculation opr (parseFloat (String_of (previousInput s)))
          (parseFloat (currentInput s)) \<and>
    es' = capped ((expression_text (previousInput s) opr (currentInput s) c, String_of c) # es)
    \<longrightarrow> calculateResult s =
          Done (updateDisplay
            (s\<lparr>history := JArr (map as_entry es'),
                localStorage := (localStorage s)(''calculatorHistory'' \<mapsto>
                  JSON_stringify (JArr (map as_entry es'))),
                calculationHistoryList := ([], map as_item es'),
                currentInput := String_of c, operator := None, previousInput := Str [],
                waitingForSecondOperand := False\<rparr>))) \<and>
   expression_text pending opr cur c =
     String_of pending @ '' '' @ op_text opr @ '' '' @ cur @ '' = '' @ String_of c \<and>
   (history (state_of (startup p)) = JArr (map as_entry hs) \<longrightarrow>
      currentInput (run [Digit ''5'', Operator Add, Digit ''3'', Equals] (state_of (startup p))) = ''8'' \<and>
      history (run [Digit ''5'', Operator Add, Digit ''3'', Equals] (state_of (startup p))) =
        JArr (map as_entry (capped ((''5 + 3 = 8'', ''8'') # hs)))) \<and>
   (entry_log t \<longrightarrow> entry_log (run as t))"
proof (intro conjI impI)
  assume "operator s = None \<or> waitingForSecondOperand s"
  then show "calculateResult s = Done s"
    by (auto simp: calculateResult_def split: option.splits)
next
  assume a: "operator s = Some opr \<and> \<not> waitingForSecondOperand s \<and>
    history s = JArr (map as_entry es) \<and>
    c = performCalculation opr (parseFloat (String_of (previousInput s)))
          (parseFloat (currentInput s)) \<and>
    es' = capped ((expression_text (previousInput s) opr (currentInput s) c, String_of c) # es)"
  then show "calculateResult s =
          Done (updateDisplay
            (s\<lparr>history := JArr (map as_entry es'),
                localStorage := (localStorage s)(''calculatorHistory'' \<mapsto>
                  JSON_stringify (JArr (map as_entry es'))),
                calculationHistoryList := ([], map as_item es'),
                currentInput := String_of c, operator := None, previousInput := Str [],
                waitingForSecondOperand := False\<rparr>))"
    using calculateResult_entries [of s opr es c es'] by blast
next
  show "expression_text pending opr cur c =
     String_of pending @ '' '' @ op_text opr @ '' '' @ cur @ '' = '' @ String_of c"
    by (simp add: expression_text_def)
next
  assume h: "history (state_of (startup p)) = JArr (map as_entry hs)"
  from five_plus_three_equals [OF h]
  show "currentInput (run [Digit ''5'', Operator Add, Digit ''3'', Equals] (state_of (startup p))) = ''8''"
    and "history (run [Digit ''5'', Operator Add, Digit ''3'', Equals] (state_of (startup p))) =
        JArr (map as_entry (capped ((''5 + 3 = 8'', ''8'') # hs)))"
    by simp_all
next
  assume "entry_log t"
  then show "entry_log (run as t)"
    by (rule run_entry_log)
qed

theorem equals_behaviour_witness:
  "operator (clearCalculator blank_page) = None \<and>
   calculateResult (clearCalculator blank_page) = Done (clearCalculator blank_page) \<and>
   operator (run [Digit ''5'', Operator Add, Digit ''3''] (state_of (startup blank_page))) = Some Add \<and>
   \<not> waitingForSecondOperand
       (run [Digit ''5'', Operator Add, Digit ''3''] (state_of (startup blank_page))) \<and>
   history (run [Digit ''5'', Operator Add, Digit ''3''] (state_of (startup blank_page))) =
     JArr (map as_entry []) \<and>
   calculateResult (run [Digit ''5'', Operator Add, Digit ''3''] (state_of (startup blank_page))) =
     Done (updateDisplay
       ((run [Digit ''5'', Operator Add, Digit ''3''] (state_of (startup blank_page)))
          \<lparr>history := JArr [entry ''5 + 3 = 8'' ''8''],
           localStorage :=
             (localStorage (run [Digit ''5'', Operator Add, Digit ''3''] (state_of (startup blank_page))))
               (''calculatorHistory'' \<mapsto> one_entry),
           calculationHistoryList := ([], [item_html ''5 + 3 = 8'' ''8'']),
           currentInput := ''8'', operator := None, previousInput := Str [],
           waitingForSecondOperand := False\<rparr>)) \<and>
   history (state_of (startup blank_page)) = JArr (map as_entry []) \<and>
   currentInput (run [Digit ''5'', Operator Add, Digit ''3'', Equals] (state_of (startup blank_page))) = ''8'' \<and>
   history (run [Digit ''5'', Operator Add, Digit ''3'', Equals] (state_of (startup blank_page))) =
     JArr [entry ''5 + 3 = 8'' ''8''] \<and>
   entry_log (state_of (startup blank_page)) \<and>
   entry_log (run [Clear, Digit ''8'', Operator Divide, Digit ''0'', Equals]
     (state_of (startup blank_page)))"
proof -
  let ?t = "run [Digit ''5'', Operator Add, Digit ''3''] (state_of (startup blank_page))"
  have o: "operator (clearCalculator blank_page) = None"
    by (simp add: clearCalculator_def updateDisplay_def)
  have h: "history (state_of (startup blank_page)) = JArr (map as_entry [])"
    by (simp add: blank_start_history)
  have t: "operator ?t = Some Add" "\<not> waitingForSecondOperand ?t" "currentInput ?t = ''3''"
    "previousInput ?t = Num (parseFloat ''5'')" "history ?t = JArr (map as_entry [])"
    using before_equals [OF refl, of blank_page] h by simp_all
  have c: "Num (num 8) = performCalculation Add (parseFloat (String_of (previousInput ?t)))
      (parseFloat (currentInput ?t))"
    using t five_plus_three by simp
  have e: "[(''5 + 3 = 8'', ''8'')] =
      capped ((expression_text (previousInput ?t) Add (currentInput ?t) (Num (num 8)),
        String_of (Num (num 8))) # [])"
    using t five_plus_three by (simp add: capped_def)
  from equals_behaviour [where s = "clearCalculator blank_page"] o
  have 1: "calculateResult (clearCalculator blank_page) = Done (clearCalculator blank_page)"
    by blast
  from equals_behaviour [where s = ?t and opr = Add and es = "[]" and c = "Num (num 8)"
      and es' = "[(''5 + 3 = 8'', ''8'')]"] t c e
  have 2: "calculateResult ?t =
     Done (updateDisplay
       (?t\<lparr>history := JArr (map as_entry [(''5 + 3 = 8'', ''8'')]),
           localStorage := (localStorage ?t)(''calculatorHistory'' \<mapsto>
             JSON_stringify (JArr (map as_entry [(''5 + 3 = 8'', ''8'')]))),
           calculationHistoryList := ([], map as_item [(''5 + 3 = 8'', ''8'')]),
           currentInput := String_of (Num (num 8)), operator := None, previousInput := Str [],
           waitingForSecondOperand := False\<rparr>))"
    by blast
  from equals_behaviour [where p = blank_page and hs = "[]"] h
  have 3: "currentInput (run [Digit ''5'', Operator Add, Digit ''3'', Equals]
        (state_of (startup blank_page))) = ''8''"
    "history (run [Digit ''5'', Operator Add, Digit ''3'', Equals] (state_of (startup blank_page))) =
        JArr (map as_entry (capped ((''5 + 3 = 8'', ''8'') # [])))"
    by blast+
  from 2 five_plus_three have r2: "calculateResult ?t =
     Done (updateDisplay
       (?t\<lparr>history := JArr [entry ''5 + 3 = 8'' ''8''],
           localStorage := (localStorage ?t)(''calculatorHistory'' \<mapsto> one_entry),
           calculationHistoryList := ([], [item_html ''5 + 3 = 8'' ''8'']),
           currentInput := ''8'', operator := None, previousInput := Str [],
           waitingForSecondOperand := False\<rparr>))"
    by (simp add: as_entry_def as_item_def one_entry_def)
  from 3(2) have r3: "history (run [Digit ''5'', Operator Add, Digit ''3'', Equals]
      (state_of (startup blank_page))) = JArr [entry ''5 + 3 = 8'' ''8'']"
    by (simp add: capped_def as_entry_def)
  from h have 4: "entry_log (state_of (startup blank_page))"
    unfolding entry_log_def by blast
  from equals_behaviour [where t = "state_of (startup blank_page)"
      and as = "[Clear, Digit ''8'', Operator Divide, Digit ''0'', Equals]"] 4
  have 5: "entry_log (run [Clear, Digit ''8'', Operator Divide, Digit ''0'', Equals]
      (state_of (startup blank_page)))"
    by blast
  from o 1 t(1,2,5) r2 h 3(1) r3 4 5 show ?thesis
    by blast
qed

subsection \<open>Loading the history\<close>

text \<open>
  With the text \<open>{\<close> under the key, \<open>JSON.parse\<close> throws and nothing catches it:
  \<open>loadHistory\<close> throws \<open>SyntaxError\<close>.
\<close>

theorem load_unparsable:
  "loadHistory (initial (blank_page\<lparr>localStorage := [''calculatorHistory'' \<mapsto> ''{'']\<rparr>)) =
     Thrown SyntaxError (initial (blank_page\<lparr>localStorage := [''calculatorHistory'' \<mapsto> ''{'']\<rparr>))"
  by (simp add: loadHistory_def initial_def JSON_parse_brace)

text \<open>
  C1. \<open>loadHistory\<close> returns with the state as it is, so with the empty log of the start,
  when the key is absent or holds the empty string. It returns with the stored log, drawn in
  the list, when the text parses to an array of entries. When the text is not empty and does
  not parse it throws \<open>SyntaxError\<close>: the log is still the empty one, and the start of the
  page ends there, before the displays are written.
\<close>

theorem load_behaviour:
  "(localStorage s ''calculatorHistory'' = None \<or> localStorage s ''calculatorHistory'' = Some []
      \<longrightarrow> loadHistory s = Done s) \<and>
   (localStorage s ''calculatorHistory'' = Some stored \<and> stored \<noteq> [] \<and>
    JSON_parse stored = Inr (JArr (map as_entry es))
      \<longrightarrow> loadHistory s =
            Done (s\<lparr>history := JArr (map as_entry es),
                    calculationHistoryList :=
                      (if es = [] then (placeholder, []) else ([], map as_item es))\<rparr>)) \<and>
   (localStorage s ''calculatorHistory'' = Some stored \<and> stored \<noteq> [] \<and> JSON_parse stored = Inl e
      \<longrightarrow> loadHistory s = Thrown SyntaxError s) \<and>
   (localStorage p ''calculatorHistory'' = Some stored \<and> stored \<noteq> [] \<and> JSON_parse stored = Inl e
      \<longrightarrow> startup p = Thrown SyntaxError (initial p) \<and> history (initial p) = JArr []) \<and>
   (localStorage p ''calculatorHistory'' = None \<or> localStorage p ''calculatorHistory'' = Some []
      \<longrightarrow> startup p = Done (updateDisplay (initial p)) \<and> history (initial p) = JArr [])"
proof (intro conjI impI)
  assume "localStorage s ''calculatorHistory'' = None \<or> localStorage s ''calculatorHistory'' = Some []"
  then show "loadHistory s = Done s"
    by (auto simp: loadHistory_def)
next
  assume a: "localStorage s ''calculatorHistory'' = Some stored \<and> stored \<noteq> [] \<and>
    JSON_parse stored = Inr (JArr (map as_entry es))"
  have "history (s\<lparr>history := JArr (map as_entry es)\<rparr>) = JArr (map as_entry es)"
    by simp
  from renderHistory_log [OF this] a
  show "loadHistory s =
            Done (s\<lparr>history := JArr (map as_entry es),
                    calculationHistoryList :=
                      (if es = [] then (placeholder, []) else ([], map as_item es))\<rparr>)"
    by (simp add: loadHistory_def)
next
  assume a: "localStorage s ''calculatorHistory'' = Some stored \<and> stored \<noteq> [] \<and> JSON_parse stored = Inl e"
  with JSON_parse_error [of stored e] show "loadHistory s = Thrown SyntaxError s"
    by (simp add: loadHistory_def)
next
  assume a: "localStorage p ''calculatorHistory'' = Some stored \<and> stored \<noteq> [] \<and> JSON_parse stored = Inl e"
  with JSON_parse_error [of stored e] show "startup p = Thrown SyntaxError (initial p)"
    by (simp add: startup_def loadHistory_def initial_def)
  show "history (initial p) = JArr []"
    by (simp add: initial_def)
next
  assume "localStorage p ''calculatorHistory'' = None \<or> localStorage p ''calculatorHistory'' = Some []"
  then show "startup p = Done (updateDisplay (initial p))"
    by (auto simp: startup_def loadHistory_def initial_def)
  show "history (initial p) = JArr []"
    by (simp add: initial_def)
qed

theorem load_behaviour_witness:
  "localStorage (initial blank_page) ''calculatorHistory'' = None \<and>
   loadHistory (initial blank_page) = Done (initial blank_page) \<and>
   startup blank_page = Done (updateDisplay (initial blank_page)) \<and>
   JSON_parse one_entry = Inr (JArr (map as_entry [(''5 + 3 = 8'', ''8'')])) \<and>
   loadHistory (initial (blank_page\<lparr>localStorage := [''calculatorHistory'' \<mapsto> one_entry]\<rparr>)) =
     Done (initial (blank_page\<lparr>localStorage := [''calculatorHistory'' \<mapsto> one_entry]\<rparr>)
       \<lparr>history := JArr [entry ''5 + 3 = 8'' ''8''],
        calculationHistoryList := ([], [item_html ''5 + 3 = 8'' ''8''])\<rparr>) \<and>
   JSON_parse ''{'' = Inl SyntaxError \<and>
   startup (blank_page\<lparr>localStorage := [''calculatorHistory'' \<mapsto> ''{'']\<rparr>) =
     Thrown SyntaxError (initial (blank_page\<lparr>localStorage := [''calculatorHistory'' \<mapsto> ''{'']\<rparr>))"
proof -
  have a: "localStorage (initial blank_page) ''calculatorHistory'' = None"
    "localStorage blank_page ''calculatorHistory'' = None"
    by (simp_all add: initial_def blank_page_def)
  let ?s = "initial (blank_page\<lparr>localStorage := [''calculatorHistory'' \<mapsto> one_entry]\<rparr>)"
  have b: "localStorage ?s ''calculatorHistory'' = Some one_entry"
    by (simp add: initial_def)
  let ?p = "blank_page\<lparr>localStorage := [''calculatorHistory'' \<mapsto> ''{'']\<rparr>"
  have c: "localStorage ?p ''calculatorHistory'' = Some ''{''" "''{'' \<noteq> []"
    by simp_all
  from load_behaviour [of "initial blank_page" one_entry "[]" SyntaxError blank_page] a
  have 1: "loadHistory (initial blank_page) = Done (initial blank_page)"
    "startup blank_page = Done (updateDisplay (initial blank_page))"
    by simp_all
  from load_behaviour [of ?s one_entry "[(''5 + 3 = 8'', ''8'')]" SyntaxError ?p] b one_entry_parsed
  have 2: "loadHistory ?s = Done (?s\<lparr>history := JArr [entry ''5 + 3 = 8'' ''8''],
        calculationHistoryList := ([], [item_html ''5 + 3 = 8'' ''8''])\<rparr>)"
    by (simp add: as_entry_def as_item_def)
  from load_behaviour [of ?s "''{''" "[]" SyntaxError ?p] c JSON_parse_brace
  have 3: "startup ?p = Thrown SyntaxError (initial ?p)"
    by simp
  from a 1 2 3 one_entry_parsed JSON_parse_brace show ?thesis
    by simp
qed

subsection \<open>The decimal point\<close>

text \<open>
  After \<open>1.5 +\<close> the entry \<open>1.5\<close> has a decimal point and the flag is set: the decimal
  point button then starts the entry \<open>0.\<close>, it does not leave the state as it is.
\<close>

theorem decimal_after_operator:
  "list_all valid_action [Digit ''1'', DecimalPoint, Digit ''5'', Operator Add] \<and>
   currentInput (run [Digit ''1'', DecimalPoint, Digit ''5'', Operator Add]
     (state_of (startup blank_page))) = ''1.5'' \<and>
   currentInput (state_of (click DecimalPoint
     (run [Digit ''1'', DecimalPoint, Digit ''5'', Operator Add] (state_of (startup blank_page))))) = ''0.'' \<and>
   click DecimalPoint
     (run [Digit ''1'', DecimalPoint, Digit ''5'', Operator Add] (state_of (startup blank_page))) \<noteq>
   Done (run [Digit ''1'', DecimalPoint, Digit ''5'', Operator Add] (state_of (startup blank_page)))"
proof -
  let ?t = "run [Digit ''1'', DecimalPoint, Digit ''5'', Operator Add] (state_of (startup blank_page))"
  have v: "list_all valid_action [Digit ''1'', DecimalPoint, Digit ''5'', Operator Add]"
    by (simp add: is_digit_def)
  have a: "currentInput ?t = ''1.5''" "waitingForSecondOperand ?t"
    using after_operator by simp_all
  then have b: "currentInput (state_of (click DecimalPoint ?t)) = ''0.''"
    by (simp add: appendDecimal_def updateDisplay_def)
  have "click DecimalPoint ?t \<noteq> Done ?t"
  proof
    assume "click DecimalPoint ?t = Done ?t"
    then have "currentInput (state_of (click DecimalPoint ?t)) = currentInput ?t"
      by simp
    with a b show False by simp
  qed
  with v a b show ?thesis by blast
qed

text \<open>
  C6. In every state reached from the start of the page by clicks, the number buttons
  carrying one digit each, the entry has at most one decimal point. When it has one and the
  flag is not set, \<open>appendDecimal\<close> only writes the displays again, and after a start that
  did not throw the displays hold that already: the state stays as it is. When the flag is
  set, \<open>appendDecimal\<close> makes the entry \<open>0.\<close> and clears the flag.
\<close>

theorem one_decimal_point:
  "list_all valid_action as \<Longrightarrow> t = run as (state_of (startup p)) \<Longrightarrow>
     dots (currentInput t) \<le> 1 \<and>
     (CHR ''.'' \<in> set (currentInput t) \<and> \<not> waitingForSecondOperand t
        \<longrightarrow> appendDecimal t = updateDisplay t \<and> currentInput (appendDecimal t) = currentInput t) \<and>
     (CHR ''.'' \<in> set (currentInput t) \<and> \<not> waitingForSecondOperand t \<and> startup p = Done s0
        \<longrightarrow> click DecimalPoint t = Done t) \<and>
     (waitingForSecondOperand t
        \<longrightarrow> currentInput (appendDecimal t) = ''0.'' \<and> \<not> waitingForSecondOperand (appendDecimal t))"
proof (intro conjI impI)
  assume v: "list_all valid_action as" and t: "t = run as (state_of (startup p))"
  have "dots (currentInput (state_of (startup p))) \<le> Suc 0"
    by (simp add: startup_engine dots_simps)
  from run_dots [OF v this] t show "dots (currentInput t) \<le> 1"
    by simp
  {
    assume d: "CHR ''.'' \<in> set (currentInput t) \<and> \<not> waitingForSecondOperand t"
    then show "appendDecimal t = updateDisplay t"
      by (simp add: appendDecimal_again)
    then show "currentInput (appendDecimal t) = currentInput t"
      by (simp add: updateDisplay_def)
  }
  {
    assume d: "CHR ''.'' \<in> set (currentInput t) \<and> \<not> waitingForSecondOperand t \<and> startup p = Done s0"
    then have "shown (state_of (startup p))"
      by (auto simp: startup_def shown_updateDisplay split: result.splits)
    with t have "shown t"
      by (simp add: run_shown)
    with d show "click DecimalPoint t = Done t"
      by (simp add: appendDecimal_again updateDisplay_shown)
  }
  {
    assume "waitingForSecondOperand t"
    then show "currentInput (appendDecimal t) = ''0.''"
      and "\<not> waitingForSecondOperand (appendDecimal t)"
      by (simp_all add: appendDecimal_def updateDisplay_def)
  }
qed

theorem one_decimal_point_witness:
  "list_all valid_action [Digit ''1'', DecimalPoint, Digit ''5''] \<and>
   startup blank_page = Done (updateDisplay (initial blank_page)) \<and>
   CHR ''.'' \<in> set (currentInput (run [Digit ''1'', DecimalPoint, Digit ''5''] (state_of (startup blank_page)))) \<and>
   \<not> waitingForSecondOperand (run [Digit ''1'', DecimalPoint, Digit ''5''] (state_of (startup blank_page))) \<and>
   dots (currentInput (run [Digit ''1'', DecimalPoint, Digit ''5''] (state_of (startup blank_page)))) \<le> 1 \<and>
   click DecimalPoint (run [Digit ''1'', DecimalPoint, Digit ''5''] (state_of (startup blank_page))) =
     Done (run [Digit ''1'', DecimalPoint, Digit ''5''] (state_of (startup blank_page))) \<and>
   waitingForSecondOperand
     (run [Digit ''1'', DecimalPoint, Digit ''5'', Operator Add] (state_of (startup blank_page))) \<and>
   currentInput (appendDecimal
     (run [Digit ''1'', DecimalPoint, Digit ''5'', Operator Add] (state_of (startup blank_page)))) = ''0.''"
proof -
  let ?t = "run [Digit ''1'', DecimalPoint, Digit ''5''] (state_of (startup blank_page))"
  let ?u = "run [Digit ''1'', DecimalPoint, Digit ''5'', Operator Add] (state_of (startup blank_page))"
  have v: "list_all valid_action [Digit ''1'', DecimalPoint, Digit ''5'']"
    "list_all valid_action [Digit ''1'', DecimalPoint, Digit ''5'', Operator Add]"
    by (simp_all add: is_digit_def)
  have s: "startup blank_page = Done (updateDisplay (initial blank_page))"
    by (simp add: startup_def loadHistory_def initial_def blank_page_def)
  have a: "CHR ''.'' \<in> set (currentInput ?t)" "\<not> waitingForSecondOperand ?t"
    by (simp_all add: appendNumber_def appendDecimal_def updateDisplay_def startup_engine)
  from one_decimal_point [OF v(1) refl, of blank_page "updateDisplay (initial blank_page)"] a s
  have 1: "dots (currentInput ?t) \<le> 1" "click DecimalPoint ?t = Done ?t"
    by blast+
  from one_decimal_point [OF v(2) refl, of blank_page "updateDisplay (initial blank_page)"]
    after_operator
  have 2: "currentInput (appendDecimal ?u) = ''0.''"
    by blast
  from v s a 1 2 after_operator show ?thesis by blast
qed

end
